theory Spec2Isabelle
  imports Complex_Main
begin

unbundle bit_operations_syntax

section \<open>Python values and exceptions\<close>

text \<open>
  Values of type \<^verbatim>\<open>Any\<close> that the program stores in \<^verbatim>\<open>CostEvent.details\<close> and
  \<^verbatim>\<open>ActionExecution.diff\<close>: \<^verbatim>\<open>None\<close>, booleans, integers, strings, lists and
  string-keyed dictionaries. A dictionary is an association list in insertion order.
  Strings are lists of 8-bit characters, read as the code points 0 to 255.
\<close>

datatype jval =
    JNone
  | JBool bool
  | JInt int
  | JStr string
  | JList "jval list"
  | JDict "(string \<times> jval) list"

type_synonym pydict = "(string \<times> jval) list"

text \<open>Python truthiness, as used by \<^verbatim>\<open>if x\<close>, \<^verbatim>\<open>not x\<close> and \<^verbatim>\<open>x and y\<close>.\<close>

fun truthy :: "jval \<Rightarrow> bool" where
  "truthy JNone = False"
| "truthy (JBool b) = b"
| "truthy (JInt i) = (i \<noteq> 0)"
| "truthy (JStr s) = (s \<noteq> [])"
| "truthy (JList xs) = (xs \<noteq> [])"
| "truthy (JDict d) = (d \<noteq> [])"

text \<open>\<^verbatim>\<open>d.get(k)\<close>: \<open>None\<close> of the option type stands for an absent key.\<close>

definition dict_get :: "pydict \<Rightarrow> string \<Rightarrow> jval option" where
  "dict_get d k = map_of d k"

text \<open>\<^verbatim>\<open>d[k] = v\<close>: an existing key keeps its position, a new key goes last.\<close>

fun dict_set :: "pydict \<Rightarrow> string \<Rightarrow> jval \<Rightarrow> pydict" where
  "dict_set [] k v = [(k, v)]"
| "dict_set ((k', v') # d) k v = (if k' = k then (k, v) # d else (k', v') # dict_set d k v)"

text \<open>
  Exceptions below \<^verbatim>\<open>Exception\<close>. Each carries the text that \<^verbatim>\<open>str(e)\<close> returns;
  a \<^verbatim>\<open>ClientError\<close> of botocore carries its error code first.
\<close>

datatype exn =
    ValueError string
  | AttributeError string
  | TypeError string
  | ClientError string string
  | OtherError string

fun str_exn :: "exn \<Rightarrow> string" where
  "str_exn (ValueError m) = m"
| "str_exn (AttributeError m) = m"
| "str_exn (TypeError m) = m"
| "str_exn (ClientError code m) = m"
| "str_exn (OtherError m) = m"

fun is_ClientError :: "exn \<Rightarrow> bool" where
  "is_ClientError (ClientError code m) = True"
| "is_ClientError _ = False"

section \<open>Data model (models.py)\<close>

datatype event_source = Budgets | Anomaly

datatype exec_mode = DryRun | Manual | Auto

datatype principal_type = IamRole | IamUser

datatype action_type = AttachDenyPolicy | NotifyOnly

datatype exec_status = Planned | Approved | Executed | RolledBack | Failed

text \<open>
  The amount is a positive float in the source; the matcher only compares it, so it is a
  rational here. Datetimes are naive UTC values, counted in microseconds since
  1970-01-01T00:00:00.
\<close>

type_synonym datetime = int

record CostEvent =
  ce_event_id :: string
  ce_source :: event_source
  ce_account_id :: string
  ce_amount :: rat
  ce_time_window :: string
  ce_details :: pydict

text \<open>
  \<^verbatim>\<open>TimeWindow.start\<close> and \<^verbatim>\<open>end\<close> are strings validated against
  \<^verbatim>\<open>^\d{2}:\d{2}$\<close>; the pair holds the two numbers that
  \<^verbatim>\<open>map(int, s.split(":"))\<close> yields from such a string. Nothing bounds them by 23 and 59.
\<close>

record TimeWindow =
  tw_start :: "nat \<times> nat"
  tw_end :: "nat \<times> nat"
  tw_timezone :: string
  tw_days :: "string list"

record PolicyExceptions =
  px_accounts :: "string list option"
  px_principals :: "string list option"
  px_time_windows :: "TimeWindow list option"

record PolicyMatch =
  pm_source :: "event_source list"
  pm_account_ids :: "string list"
  pm_min_amount_usd :: rat
  pm_max_amount_usd :: "rat option"
  pm_services :: "string list option"
  pm_regions :: "string list option"

record Principal =
  pr_type :: principal_type
  pr_arn :: string

record PolicyScope =
  sc_principals :: "Principal list"
  sc_regions :: "string list option"

record PolicyAction =
  pa_type :: action_type
  pa_deny :: "string list option"

text \<open>
  \<^verbatim>\<open>GuardrailPolicy\<close> without its \<^verbatim>\<open>description\<close> and \<^verbatim>\<open>notify\<close> fields, which
  no function below reads.
\<close>

record GuardrailPolicy =
  gp_policy_id :: string
  gp_enabled :: bool
  gp_mode :: exec_mode
  gp_ttl_minutes :: int
  gp_match :: PolicyMatch
  gp_scope :: PolicyScope
  gp_actions :: "PolicyAction list"
  gp_exceptions :: "PolicyExceptions option"

record ActionPlan =
  ap_matched :: bool
  ap_matched_policy_id :: "string option"
  ap_mode :: "exec_mode option"
  ap_actions :: "PolicyAction list"
  ap_ttl_minutes :: "int option"
  ap_target_principals :: "string list"

text \<open>
  The constructor \<^verbatim>\<open>ActionPlan(...)\<close> with its \<^verbatim>\<open>model_post_init\<close> check. A mode
  that is present is one of the three literals, so it is never falsy.
\<close>

definition new_ActionPlan ::
  "bool \<Rightarrow> string option \<Rightarrow> exec_mode option \<Rightarrow> PolicyAction list \<Rightarrow> int option \<Rightarrow> string list
    \<Rightarrow> exn + ActionPlan" where
  "new_ActionPlan matched pid mode actions ttl targets =
     (if matched \<and> (pid = None \<or> pid = Some [])
        then Inl (ValueError ''matched_policy_id is required when matched=True'')
      else if matched \<and> mode = None
        then Inl (ValueError ''mode is required when matched=True'')
      else if matched \<and> actions = []
        then Inl (ValueError ''actions list cannot be empty when matched=True'')
      else Inr \<lparr>ap_matched = matched, ap_matched_policy_id = pid, ap_mode = mode,
                ap_actions = actions, ap_ttl_minutes = ttl, ap_target_principals = targets\<rparr>)"

text \<open>\<^verbatim>\<open>ActionExecution.action\<close> is a plain string in the source, not a literal type.\<close>

record ActionExecution =
  ae_execution_id :: string
  ae_policy_id :: string
  ae_event_id :: string
  ae_status :: exec_status
  ae_executed_at :: "datetime option"
  ae_executed_by :: string
  ae_action :: string
  ae_target :: string
  ae_diff :: pydict
  ae_ttl_expires_at :: "datetime option"
  ae_rolled_back_at :: "datetime option"

fun action_type_str :: "action_type \<Rightarrow> string" where
  "action_type_str AttachDenyPolicy = ''attach_deny_policy''"
| "action_type_str NotifyOnly = ''notify_only''"

section \<open>The world outside the program\<close>

text \<open>
  Everything the program reads or changes outside its own variables:
  \<^item> the wall clock: \<open>clock w n\<close> is what the \<open>n\<close>-th call of
    \<^verbatim>\<open>datetime.utcnow()\<close> returns, \<open>ticks w\<close> counts the calls made so far;
  \<^item> the source of \<^verbatim>\<open>uuid4()\<close> values, in the same way;
  \<^item> the DynamoDB audit table, one item per \<^verbatim>\<open>execution_id\<close>, and for its
    \<open>n\<close>-th request the exception it raises, if any;
  \<^item> the state \<open>ext w\<close> of the services behind boto3 and the Slack webhook, of which
    nothing is assumed.
\<close>

record 'x world =
  clock :: "nat \<Rightarrow> datetime"
  ticks :: nat
  uuids :: "nat \<Rightarrow> string"
  uuid_count :: nat
  table :: "ActionExecution list"
  db_faults :: "nat \<Rightarrow> exn option"
  db_calls :: nat
  ext :: 'x

definition utcnow :: "'x world \<Rightarrow> datetime \<times> 'x world" where
  "utcnow w = (clock w (ticks w), w\<lparr>ticks := Suc (ticks w)\<rparr>)"

definition us_per_day :: int where
  "us_per_day = 86400000000"

text \<open>\<^verbatim>\<open>now.strftime("%a").lower()\<close>; 1970-01-01 was a Thursday.\<close>

definition day_abbr :: "datetime \<Rightarrow> string" where
  "day_abbr now =
     [''thu'', ''fri'', ''sat'', ''sun'', ''mon'', ''tue'', ''wed''] ! nat ((now div us_per_day) mod 7)"

text \<open>
  \<^verbatim>\<open>now.replace(hour=h, minute=m, second=0, microsecond=0)\<close>, which raises
  \<^verbatim>\<open>ValueError\<close> for an hour above 23 or a minute above 59.
\<close>

definition replace_hm :: "datetime \<Rightarrow> nat \<times> nat \<Rightarrow> exn + datetime" where
  "replace_hm now hm =
     (if fst hm > 23 then Inl (ValueError ''hour must be in 0..23'')
      else if snd hm > 59 then Inl (ValueError ''minute must be in 0..59'')
      else Inr ((now div us_per_day) * us_per_day
                 + (int (fst hm) * 3600 + int (snd hm) * 60) * 1000000))"

section \<open>Policy engine (policy\_engine.py)\<close>

text \<open>\<^verbatim>\<open>v in xs\<close> for a list of strings: only a string can equal one of them.\<close>

definition in_strs :: "jval option \<Rightarrow> string list \<Rightarrow> bool" where
  "in_strs v xs = (case v of Some (JStr s) \<Rightarrow> s \<in> set xs | _ \<Rightarrow> False)"

text \<open>
  \<^verbatim>\<open>_principal_matches_allowlist\<close>. The principal comes from the event's details, so it
  is any value; \<^verbatim>\<open>startswith\<close> exists on strings only.
\<close>

fun principal_matches_allowlist :: "jval \<Rightarrow> string list \<Rightarrow> exn + bool" where
  "principal_matches_allowlist principal_arn [] = Inr False"
| "principal_matches_allowlist principal_arn (pattern # rest) =
     (if pattern \<noteq> [] \<and> last pattern = CHR ''*'' then
        (case principal_arn of
           JStr s \<Rightarrow>
             (if take (length (butlast pattern)) s = butlast pattern then Inr True
              else principal_matches_allowlist principal_arn rest)
         | _ \<Rightarrow> Inl (AttributeError ''object has no attribute 'startswith' ''))
      else if principal_arn = JStr pattern then Inr True
      else principal_matches_allowlist principal_arn rest)"

fun in_windows :: "datetime \<Rightarrow> TimeWindow list \<Rightarrow> exn + bool" where
  "in_windows now [] = Inr False"
| "in_windows now (window # rest) =
     (if day_abbr now \<notin> set (tw_days window) then in_windows now rest
      else case replace_hm now (tw_start window) of
        Inl e \<Rightarrow> Inl e
      | Inr start_time \<Rightarrow>
          (case replace_hm now (tw_end window) of
             Inl e \<Rightarrow> Inl e
           | Inr end_time \<Rightarrow>
               (if start_time \<le> now \<and> now \<le> end_time then Inr True
                else in_windows now rest)))"

definition in_exempted_time_window :: "TimeWindow list \<Rightarrow> 'x world \<Rightarrow> (exn + bool) \<times> 'x world" where
  "in_exempted_time_window time_windows w =
     (case utcnow w of (now, w') \<Rightarrow> (in_windows now time_windows, w'))"

text \<open>An optional list is truthy when it is present and not empty.\<close>

fun some_list :: "'a list option \<Rightarrow> 'a list" where
  "some_list None = []"
| "some_list (Some xs) = xs"

definition is_exempted :: "CostEvent \<Rightarrow> PolicyExceptions \<Rightarrow> 'x world \<Rightarrow> (exn + bool) \<times> 'x world" where
  "is_exempted event exceptions w =
     (if some_list (px_accounts exceptions) \<noteq> []
         \<and> ce_account_id event \<in> set (some_list (px_accounts exceptions))
      then (Inr True, w)
      else case (if some_list (px_principals exceptions) \<noteq> [] then
                   (case dict_get (ce_details event) ''principal_arn'' of
                      None \<Rightarrow> Inr False
                    | Some event_principal \<Rightarrow>
                        (if truthy event_principal
                         then principal_matches_allowlist event_principal
                                (some_list (px_principals exceptions))
                         else Inr False))
                 else Inr False) of
        Inl e \<Rightarrow> (Inl e, w)
      | Inr True \<Rightarrow> (Inr True, w)
      | Inr False \<Rightarrow>
          (if some_list (px_time_windows exceptions) \<noteq> []
           then in_exempted_time_window (some_list (px_time_windows exceptions)) w
           else (Inr False, w)))"

definition match_event :: "CostEvent \<Rightarrow> GuardrailPolicy \<Rightarrow> 'x world \<Rightarrow> (exn + bool) \<times> 'x world" where
  "match_event event policy w =
     (if ce_source event \<notin> set (pm_source (gp_match policy)) then (Inr False, w)
      else if ce_account_id event \<notin> set (pm_account_ids (gp_match policy)) then (Inr False, w)
      else if ce_amount event < pm_min_amount_usd (gp_match policy) then (Inr False, w)
      else if (case pm_max_amount_usd (gp_match policy) of
                 None \<Rightarrow> False | Some mx \<Rightarrow> ce_amount event > mx) then (Inr False, w)
      else if (case pm_services (gp_match policy) of
                 None \<Rightarrow> False
               | Some services \<Rightarrow> \<not> in_strs (dict_get (ce_details event) ''service'') services)
        then (Inr False, w)
      else if (case pm_regions (gp_match policy) of
                 None \<Rightarrow> False
               | Some regions \<Rightarrow> \<not> in_strs (dict_get (ce_details event) ''region'') regions)
        then (Inr False, w)
      else case gp_exceptions policy of
        None \<Rightarrow> (Inr True, w)
      | Some exceptions \<Rightarrow>
          (case is_exempted event exceptions w of
             (Inl e, w') \<Rightarrow> (Inl e, w')
           | (Inr True, w') \<Rightarrow> (Inr False, w')
           | (Inr False, w') \<Rightarrow> (Inr True, w')))"

definition build_action_plan :: "CostEvent \<Rightarrow> GuardrailPolicy \<Rightarrow> exn + ActionPlan" where
  "build_action_plan event policy =
     new_ActionPlan True (Some (gp_policy_id policy)) (Some (gp_mode policy)) (gp_actions policy)
       (Some (gp_ttl_minutes policy)) (map pr_arn (sc_principals (gp_scope policy)))"

fun evaluate :: "CostEvent \<Rightarrow> GuardrailPolicy list \<Rightarrow> 'x world \<Rightarrow> (exn + ActionPlan) \<times> 'x world" where
  "evaluate event [] w = (new_ActionPlan False None None [] None [], w)"
| "evaluate event (policy # rest) w =
     (if \<not> gp_enabled policy then evaluate event rest w
      else case match_event event policy w of
        (Inl e, w') \<Rightarrow> (Inl e, w')
      | (Inr True, w') \<Rightarrow> (build_action_plan event policy, w')
      | (Inr False, w') \<Rightarrow> evaluate event rest w')"

section \<open>JSON\<close>

definition hexdigit :: "nat \<Rightarrow> char" where
  "hexdigit n = ''0123456789abcdef'' ! n"

text \<open>One character inside a JSON string, as \<^verbatim>\<open>json.dumps\<close> writes it with
  \<^verbatim>\<open>ensure_ascii=True\<close>.\<close>

definition json_escape_char :: "char \<Rightarrow> string" where
  "json_escape_char c =
     (if c = CHR ''\"'' then [CHR 0x5C, CHR ''\"'']
      else if c = CHR 0x5C then [CHR 0x5C, CHR 0x5C]
      else if c = CHR 0x0A then [CHR 0x5C, CHR ''n'']
      else if c = CHR 0x0D then [CHR 0x5C, CHR ''r'']
      else if c = CHR 0x09 then [CHR 0x5C, CHR ''t'']
      else if c = CHR 0x08 then [CHR 0x5C, CHR ''b'']
      else if c = CHR 0x0C then [CHR 0x5C, CHR ''f'']
      else if (of_char c :: nat) < 32 \<or> (of_char c :: nat) > 126
        then [CHR 0x5C, CHR ''u'', CHR ''0'', CHR ''0'',
              hexdigit ((of_char c :: nat) div 16), hexdigit ((of_char c :: nat) mod 16)]
      else [c])"

definition json_string :: "string \<Rightarrow> string" where
  "json_string s = [CHR ''\"''] @ concat (map json_escape_char s) @ [CHR ''\"'']"

fun join :: "string \<Rightarrow> string list \<Rightarrow> string" where
  "join sep [] = []"
| "join sep [x] = x"
| "join sep (x # y # ys) = x @ sep @ join sep (y # ys)"

function digits :: "nat \<Rightarrow> string" where
  "digits n = (if n < 10 then [hexdigit n] else digits (n div 10) @ [hexdigit (n mod 10)])"
  by pat_completeness auto
termination
  by (relation "measure id") auto

definition str_int :: "int \<Rightarrow> string" where
  "str_int i = (if i < 0 then CHR ''-'' # digits (nat (- i)) else digits (nat i))"

text \<open>Order of Python strings: by code point, a proper prefix first.\<close>

fun str_le :: "string \<Rightarrow> string \<Rightarrow> bool" where
  "str_le [] t = True"
| "str_le (c # s) [] = False"
| "str_le (c # s) (d # t) =
     (if (of_char c :: nat) < of_char d then True
      else if (of_char d :: nat) < of_char c then False
      else str_le s t)"

fun insert_by_key :: "string \<times> 'a \<Rightarrow> (string \<times> 'a) list \<Rightarrow> (string \<times> 'a) list" where
  "insert_by_key p [] = [p]"
| "insert_by_key p (q # qs) =
     (if str_le (fst q) (fst p) then q # insert_by_key p qs else p # q # qs)"

definition sort_by_key :: "(string \<times> 'a) list \<Rightarrow> (string \<times> 'a) list" where
  "sort_by_key ps = foldl (\<lambda>acc p. insert_by_key p acc) [] ps"

fun json_dumps :: "bool \<Rightarrow> jval \<Rightarrow> string"
  and json_items :: "bool \<Rightarrow> jval list \<Rightarrow> string list"
  and json_pairs :: "bool \<Rightarrow> (string \<times> jval) list \<Rightarrow> (string \<times> string) list" where
  "json_dumps sort_keys JNone = ''null''"
| "json_dumps sort_keys (JBool b) = (if b then ''true'' else ''false'')"
| "json_dumps sort_keys (JInt i) = str_int i"
| "json_dumps sort_keys (JStr s) = json_string s"
| "json_dumps sort_keys (JList xs) = ''['' @ join '', '' (json_items sort_keys xs) @ '']''"
| "json_dumps sort_keys (JDict d) =
     ''{'' @ join '', ''
        (map (\<lambda>kv. json_string (fst kv) @ '': '' @ snd kv)
           (if sort_keys then sort_by_key (json_pairs sort_keys d) else json_pairs sort_keys d))
      @ ''}''"
| "json_items sort_keys [] = []"
| "json_items sort_keys (x # xs) = json_dumps sort_keys x # json_items sort_keys xs"
| "json_pairs sort_keys [] = []"
| "json_pairs sort_keys ((k, v) # d) = (k, json_dumps sort_keys v) # json_pairs sort_keys d"


section \<open>SHA-256 and HMAC\<close>

text \<open>
  \<^verbatim>\<open>hashlib.sha256\<close> as FIPS 180-4 defines it. Bytes are numbers below 256, words
  numbers below \<open>2 ^ 32\<close> with the wrap-around written out.
\<close>

definition K256 :: "nat list" where
  "K256 = [1116352408, 1899447441, 3049323471, 3921009573, 961987163, 1508970993, 2453635748, 2870763221, 3624381080, 310598401, 607225278, 1426881987, 1925078388, 2162078206, 2614888103, 3248222580, 3835390401, 4022224774, 264347078, 604807628, 770255983, 1249150122, 1555081692, 1996064986, 2554220882, 2821834349, 2952996808, 3210313671, 3336571891, 3584528711, 113926993, 338241895, 666307205, 773529912, 1294757372, 1396182291, 1695183700, 1986661051, 2177026350, 2456956037, 2730485921, 2820302411, 3259730800, 3345764771, 3516065817, 3600352804, 4094571909, 275423344, 430227734, 506948616, 659060556, 883997877, 958139571, 1322822218, 1537002063, 1747873779, 1955562222, 2024104815, 2227730452, 2361852424, 2428436474, 2756734187, 3204031479, 3329325298]"

definition H256 :: "nat list" where
  "H256 = [1779033703, 3144134277, 1013904242, 2773480762, 1359893119, 2600822924, 528734635, 1541459225]"

definition w32 :: "nat \<Rightarrow> nat" where
  "w32 x = x mod 4294967296"

definition rotr :: "nat \<Rightarrow> nat \<Rightarrow> nat" where
  "rotr n x = x div 2 ^ n + (x mod 2 ^ n) * 2 ^ (32 - n)"

definition ssig0 :: "nat \<Rightarrow> nat" where
  "ssig0 x = rotr 7 x XOR rotr 18 x XOR x div 2 ^ 3"

definition ssig1 :: "nat \<Rightarrow> nat" where
  "ssig1 x = rotr 17 x XOR rotr 19 x XOR x div 2 ^ 10"

definition bsig0 :: "nat \<Rightarrow> nat" where
  "bsig0 x = rotr 2 x XOR rotr 13 x XOR rotr 22 x"

definition bsig1 :: "nat \<Rightarrow> nat" where
  "bsig1 x = rotr 6 x XOR rotr 11 x XOR rotr 25 x"

definition ch :: "nat \<Rightarrow> nat \<Rightarrow> nat \<Rightarrow> nat" where
  "ch x y z = (x AND y) XOR ((4294967295 - x) AND z)"

definition maj :: "nat \<Rightarrow> nat \<Rightarrow> nat \<Rightarrow> nat" where
  "maj x y z = (x AND y) XOR (x AND z) XOR (y AND z)"

text \<open>Big-endian words of a block.\<close>

fun be32 :: "nat list \<Rightarrow> nat list" where
  "be32 (a # b # c # d # rest) = (((a * 256 + b) * 256 + c) * 256 + d) # be32 rest"
| "be32 _ = []"

text \<open>The message schedule: \<open>ws\<close> holds the sixteen words before the next one.\<close>

definition sched_word :: "nat list \<Rightarrow> nat" where
  "sched_word ws = w32 (ssig1 (ws ! 14) + ws ! 9 + ssig0 (ws ! 1) + ws ! 0)"

fun sched_push :: "nat \<Rightarrow> nat \<Rightarrow> nat list \<Rightarrow> nat list"
  and schedule :: "nat \<Rightarrow> nat list \<Rightarrow> nat list" where
  "sched_push n x ws = x # schedule n (tl ws @ [x])"
| "schedule 0 ws = []"
| "schedule (Suc n) ws = sched_push n (sched_word ws) ws"

definition round_next :: "nat \<Rightarrow> nat \<Rightarrow> nat list \<Rightarrow> nat list" where
  "round_next t1 t2 s = w32 (t1 + t2) # take 3 s @ w32 (s ! 3 + t1) # take 3 (drop 4 s)"

definition round_step :: "nat list \<Rightarrow> nat \<Rightarrow> nat \<Rightarrow> nat list" where
  "round_step s k x =
     round_next (s ! 7 + bsig1 (s ! 4) + ch (s ! 4) (s ! 5) (s ! 6) + k + x)
                (bsig0 (s ! 0) + maj (s ! 0) (s ! 1) (s ! 2)) s"

fun rounds :: "nat list \<Rightarrow> nat list \<Rightarrow> nat list \<Rightarrow> nat list" where
  "rounds s (k # ks) (x # xs) = rounds (round_step s k x) ks xs"
| "rounds s _ _ = s"

definition compress :: "nat list \<Rightarrow> nat list \<Rightarrow> nat list" where
  "compress hs block =
     map w32 (map2 (+) hs (rounds hs K256 (be32 block @ schedule 48 (be32 block))))"

fun be_bytes :: "nat \<Rightarrow> nat \<Rightarrow> nat list" where
  "be_bytes 0 n = []"
| "be_bytes (Suc k) n = be_bytes k (n div 256) @ [n mod 256]"

definition pad :: "nat list \<Rightarrow> nat list" where
  "pad m = m @ [128] @ replicate ((119 - length m mod 64) mod 64) 0 @ be_bytes 8 (8 * length m)"

fun absorb :: "nat \<Rightarrow> nat list \<Rightarrow> nat list \<Rightarrow> nat list" where
  "absorb 0 hs bs = hs"
| "absorb (Suc n) hs bs = absorb n (compress hs (take 64 bs)) (drop 64 bs)"

definition sha256 :: "nat list \<Rightarrow> nat list" where
  "sha256 m = concat (map (be_bytes 4) (absorb (length (pad m) div 64) H256 (pad m)))"

definition hexdigest :: "nat list \<Rightarrow> string" where
  "hexdigest bs = concat (map (\<lambda>b. [hexdigit (b div 16), hexdigit (b mod 16)]) bs)"

text \<open>\<^verbatim>\<open>str.encode()\<close>: UTF-8 of the code points 0 to 255.\<close>

definition utf8 :: "string \<Rightarrow> nat list" where
  "utf8 s = concat (map (\<lambda>c. if (of_char c :: nat) < 128 then [of_char c]
                              else [192 + of_char c div 64, 128 + of_char c mod 64]) s)"

text \<open>\<^verbatim>\<open>hmac.new(key, msg, hashlib.sha256).digest()\<close> (RFC 2104, block size 64).\<close>

definition hmac_sha256 :: "nat list \<Rightarrow> nat list \<Rightarrow> nat list" where
  "hmac_sha256 key msg =
     sha256 (map (\<lambda>b. b XOR 92)
               ((if length key > 64 then sha256 key else key)
                  @ replicate (64 - length (if length key > 64 then sha256 key else key)) 0)
             @ sha256 (map (\<lambda>b. b XOR 54)
               ((if length key > 64 then sha256 key else key)
                  @ replicate (64 - length (if length key > 64 then sha256 key else key)) 0)
               @ msg))"

section \<open>Calls that may raise\<close>

text \<open>
  A statement of the program is a function from the world to a result and the world
  after it; the result is \<open>Inl e\<close> when the statement raises \<open>e\<close>. What was changed
  before the exception stays changed.
\<close>

type_synonym ('a, 'x) run = "'x world \<Rightarrow> (exn + 'a) \<times> 'x world"

definition and_then :: "('a, 'x) run \<Rightarrow> ('a \<Rightarrow> ('b, 'x) run) \<Rightarrow> ('b, 'x) run" where
  "and_then m f w = (case m w of (Inl e, w') \<Rightarrow> (Inl e, w') | (Inr a, w') \<Rightarrow> f a w')"

definition pure_result :: "exn + 'a \<Rightarrow> ('a, 'x) run" where
  "pure_result r w = (r, w)"

text \<open>A request to a service outside: it works on the external state only.\<close>

definition call :: "('x \<Rightarrow> (exn + 'a) \<times> 'x) \<Rightarrow> ('a, 'x) run" where
  "call f w = (case f (ext w) of (r, x') \<Rightarrow> (r, w\<lparr>ext := x'\<rparr>))"

definition uuid4 :: "'x world \<Rightarrow> string \<times> 'x world" where
  "uuid4 w = (uuids w (uuid_count w), w\<lparr>uuid_count := Suc (uuid_count w)\<rparr>)"

section \<open>The services behind boto3 and the Slack webhook\<close>

text \<open>
  The IAM and STS requests that the executor sends, named as in boto3, with the part of
  each response that the executor reads. Nothing is assumed of what they do: each is any
  function on the external state, and may raise.
\<close>

record 'x iam_client =
  iam_get_policy :: "string \<Rightarrow> 'x \<Rightarrow> (exn + unit) \<times> 'x"
  iam_create_policy :: "string \<Rightarrow> string \<Rightarrow> string \<Rightarrow> 'x \<Rightarrow> (exn + string) \<times> 'x"
  iam_list_attached_role_policies :: "string \<Rightarrow> 'x \<Rightarrow> (exn + string list) \<times> 'x"
  iam_list_attached_user_policies :: "string \<Rightarrow> 'x \<Rightarrow> (exn + string list) \<times> 'x"
  iam_attach_role_policy :: "string \<Rightarrow> string \<Rightarrow> 'x \<Rightarrow> (exn + unit) \<times> 'x"
  iam_attach_user_policy :: "string \<Rightarrow> string \<Rightarrow> 'x \<Rightarrow> (exn + unit) \<times> 'x"
  iam_detach_role_policy :: "string \<Rightarrow> string \<Rightarrow> 'x \<Rightarrow> (exn + unit) \<times> 'x"
  iam_detach_user_policy :: "string \<Rightarrow> string \<Rightarrow> 'x \<Rightarrow> (exn + unit) \<times> 'x"
  iam_list_entities_for_policy ::
    "string \<Rightarrow> 'x \<Rightarrow> (exn + string list \<times> string list \<times> string list) \<times> 'x"
  iam_delete_policy :: "string \<Rightarrow> 'x \<Rightarrow> (exn + unit) \<times> 'x"
  sts_get_caller_identity :: "'x \<Rightarrow> (exn + string) \<times> 'x"

text \<open>
  The three messages of \<^verbatim>\<open>SlackNotifier\<close> that the handlers below send. The failure
  alert receives the number of failures, the error details and the two clock readings
  from which the source builds its synthetic event; the text of the message is not
  modelled.
\<close>

record 'x notifier =
  send_execution_confirmation :: "ActionExecution \<Rightarrow> 'x \<Rightarrow> (exn + bool) \<times> 'x"
  send_rollback_confirmation :: "ActionExecution \<Rightarrow> 'x \<Rightarrow> (exn + bool) \<times> 'x"
  send_error_alert :: "nat \<Rightarrow> pydict list \<Rightarrow> datetime \<Rightarrow> datetime \<Rightarrow> 'x \<Rightarrow> (exn + bool) \<times> 'x"

section \<open>IAM executor (executor\_iam.py)\<close>

record 'x IAMExecutor =
  dry_run :: bool
  iam :: "'x iam_client"

text \<open>\<^verbatim>\<open>s.split(c)\<close> and \<^verbatim>\<open>s.split(c, 1)\<close>.\<close>

fun split_on :: "char \<Rightarrow> string \<Rightarrow> string list" where
  "split_on c [] = [[]]"
| "split_on c (x # xs) =
     (if x = c then [] # split_on c xs
      else case split_on c xs of [] \<Rightarrow> [[x]] | p # ps \<Rightarrow> (x # p) # ps)"

fun split_once :: "char \<Rightarrow> string \<Rightarrow> string \<times> string" where
  "split_once c [] = ([], [])"
| "split_once c (x # xs) =
     (if x = c then ([], xs) else case split_once c xs of (p, q) \<Rightarrow> (x # p, q))"

text \<open>\<^verbatim>\<open>sub in s\<close> for two strings.\<close>

fun contains :: "string \<Rightarrow> string \<Rightarrow> bool" where
  "contains sub [] = (sub = [])"
| "contains sub (x # xs) = (take (length sub) (x # xs) = sub \<or> contains sub xs)"

definition parse_principal_arn :: "string \<Rightarrow> exn + string \<times> string" where
  "parse_principal_arn arn =
     (if length (split_on CHR '':'' arn) \<noteq> 6 \<or> split_on CHR '':'' arn ! 2 \<noteq> ''iam''
        then Inl (ValueError (''Invalid IAM ARN: '' @ arn))
      else if CHR ''/'' \<notin> set (split_on CHR '':'' arn ! 5)
        then Inl (ValueError (''Invalid IAM resource: '' @ split_on CHR '':'' arn ! 5))
      else if fst (split_once CHR ''/'' (split_on CHR '':'' arn ! 5)) \<notin> {''role'', ''user''}
        then Inl (ValueError (''Unsupported principal type: ''
                    @ fst (split_once CHR ''/'' (split_on CHR '':'' arn ! 5))))
      else Inr (split_once CHR ''/'' (split_on CHR '':'' arn ! 5)))"

definition list_attached_policies ::
  "'x iam_client \<Rightarrow> string \<Rightarrow> string \<Rightarrow> (string list, 'x) run" where
  "list_attached_policies client principal_type principal_name =
     (if principal_type = ''role'' then call (iam_list_attached_role_policies client principal_name)
      else if principal_type = ''user''
        then call (iam_list_attached_user_policies client principal_name)
      else pure_result (Inl (ValueError (''Unsupported principal type: '' @ principal_type))))"

text \<open>
  The name of the deny policy: \<^verbatim>\<open>json.dumps(deny_actions, sort_keys=True)\<close>, hashed,
  and the first eight hexadecimal digits appended to the policy id.
\<close>

definition policy_hash :: "string list \<Rightarrow> string" where
  "policy_hash deny_actions =
     take 8 (hexdigest (sha256 (utf8 (json_dumps True (JList (map JStr deny_actions))))))"

definition deny_policy_name :: "string list \<Rightarrow> string \<Rightarrow> string" where
  "deny_policy_name deny_actions policy_id =
     ''guardrails-deny-'' @ policy_id @ ''-'' @ policy_hash deny_actions"

definition policy_document :: "string list \<Rightarrow> jval" where
  "policy_document deny_actions =
     JDict [(''Version'', JStr ''2012-10-17''),
            (''Statement'',
               JList [JDict [(''Sid'', JStr ''GuardrailsDenyPolicy''),
                             (''Effect'', JStr ''Deny''),
                             (''Action'', JList (map JStr deny_actions)),
                             (''Resource'', JStr ''*'')]])]"

text \<open>
  The lookup of an existing policy in \<^verbatim>\<open>_attach_deny_policy\<close>: its \<^verbatim>\<open>try\<close> covers
  the STS request too, and only a \<^verbatim>\<open>ClientError\<close> with the code
  \<^verbatim>\<open>NoSuchEntity\<close> is taken for "no such policy".
\<close>

definition find_existing_policy :: "'x iam_client \<Rightarrow> string \<Rightarrow> (string option, 'x) run" where
  "find_existing_policy client policy_name w =
     (case and_then (call (sts_get_caller_identity client))
             (\<lambda>account_id.
                and_then (call (iam_get_policy client
                                  (''arn:aws:iam::'' @ account_id @ '':policy/'' @ policy_name)))
                  (\<lambda>_. pure_result
                         (Inr (Some (''arn:aws:iam::'' @ account_id @ '':policy/'' @ policy_name)))))
             w of
        (Inl (ClientError code m), w') \<Rightarrow>
          (if code \<noteq> ''NoSuchEntity'' then (Inl (ClientError code m), w') else (Inr None, w'))
      | (r, w') \<Rightarrow> (r, w'))"

definition attach_deny_policy ::
  "'x iam_client \<Rightarrow> string \<Rightarrow> string list \<Rightarrow> string \<Rightarrow> (pydict, 'x) run" where
  "attach_deny_policy client principal_arn deny_actions policy_id =
     and_then (pure_result (parse_principal_arn principal_arn))
       (\<lambda>(principal_type, principal_name).
     and_then (find_existing_policy client (deny_policy_name deny_actions policy_id))
       (\<lambda>existing_policy_arn.
     and_then (case existing_policy_arn of
                 Some arn \<Rightarrow> pure_result (Inr arn)
               | None \<Rightarrow>
                   call (iam_create_policy client (deny_policy_name deny_actions policy_id)
                           (json_dumps False (policy_document deny_actions))
                           (''AutoGuardRails deny policy for '' @ policy_id)))
       (\<lambda>policy_arn.
     and_then (list_attached_policies client principal_type principal_name)
       (\<lambda>before_policies.
     and_then (if principal_type = ''role''
                 then call (iam_attach_role_policy client principal_name policy_arn)
               else if principal_type = ''user''
                 then call (iam_attach_user_policy client principal_name policy_arn)
               else pure_result
                      (Inl (ValueError (''Unsupported principal type: '' @ principal_type))))
       (\<lambda>_.
     and_then (list_attached_policies client principal_type principal_name)
       (\<lambda>after_policies.
     pure_result
       (Inr [(''policy_arn'', JStr policy_arn),
             (''policy_name'', JStr (deny_policy_name deny_actions policy_id)),
             (''principal_arn'', JStr principal_arn),
             (''principal_type'', JStr principal_type),
             (''principal_name'', JStr principal_name),
             (''before'', JList (map JStr before_policies)),
             (''after'', JList (map JStr after_policies)),
             (''denied_actions'', JList (map JStr deny_actions))])))))))"

text \<open>
  \<^verbatim>\<open>_execute_single_action\<close>. The record starts as planned with an id from
  \<^verbatim>\<open>uuid4()\<close>. The check of the deny list stands before the \<^verbatim>\<open>try\<close>, so it
  raises; whatever the attachment raises is caught and recorded. The type of an action is
  one of the two literals, so the source's last branch (unsupported type) has no case.
\<close>

definition execute_single_action ::
  "'x IAMExecutor \<Rightarrow> PolicyAction \<Rightarrow> string \<Rightarrow> string \<Rightarrow> string \<Rightarrow> string \<Rightarrow> int option
     \<Rightarrow> (ActionExecution, 'x) run" where
  "execute_single_action ex action principal_arn policy_id event_id executed_by ttl_minutes w =
     (case uuid4 w of (u, w0) \<Rightarrow>
       (let execution =
              \<lparr>ae_execution_id = ''exec-'' @ u, ae_policy_id = policy_id, ae_event_id = event_id,
               ae_status = Planned, ae_executed_at = None, ae_executed_by = executed_by,
               ae_action = action_type_str (pa_type action), ae_target = principal_arn,
               ae_diff = [], ae_ttl_expires_at = None, ae_rolled_back_at = None\<rparr>
        in case pa_type action of
          NotifyOnly \<Rightarrow>
            (case utcnow w0 of (now, w1) \<Rightarrow>
               (Inr (execution\<lparr>ae_status := Executed, ae_executed_at := Some now,
                       ae_diff := [(''action'', JStr ''notify_only''),
                                   (''no_changes'', JBool True)]\<rparr>), w1))
        | AttachDenyPolicy \<Rightarrow>
            (if some_list (pa_deny action) = []
               then (Inl (ValueError ''attach_deny_policy requires deny list''), w0)
             else if dry_run ex then
               (case utcnow w0 of (now, w1) \<Rightarrow>
                  (Inr (execution\<lparr>ae_status := Executed, ae_executed_at := Some now,
                          ae_diff := [(''dry_run'', JBool True),
                                      (''would_deny'', JList (map JStr (some_list (pa_deny action)))),
                                      (''target'', JStr principal_arn)]\<rparr>), w1))
             else
               (case attach_deny_policy (iam ex) principal_arn (some_list (pa_deny action))
                       policy_id w0 of
                  (Inl e, w1) \<Rightarrow>
                    (Inr (execution\<lparr>ae_status := Failed,
                            ae_diff := [(''error'', JStr (str_exn e))]\<rparr>), w1)
                | (Inr result, w1) \<Rightarrow>
                    (case utcnow w1 of (now, w2) \<Rightarrow>
                       (if (case ttl_minutes of None \<Rightarrow> False | Some t \<Rightarrow> t \<noteq> 0 \<and> t > 0)
                        then
                          (case utcnow w2 of (now', w3) \<Rightarrow>
                             (Inr (execution\<lparr>ae_status := Executed, ae_executed_at := Some now,
                                     ae_diff := result,
                                     ae_ttl_expires_at :=
                                       Some (now' + the ttl_minutes * 60000000)\<rparr>), w3))
                        else
                          (Inr (execution\<lparr>ae_status := Executed, ae_executed_at := Some now,
                                  ae_diff := result\<rparr>), w2)))))))"

text \<open>The two loops of \<^verbatim>\<open>execute_action_plan\<close>: targets inside, actions outside.\<close>

fun execute_for_targets ::
  "'x IAMExecutor \<Rightarrow> PolicyAction \<Rightarrow> string list \<Rightarrow> string \<Rightarrow> string \<Rightarrow> string \<Rightarrow> int option
     \<Rightarrow> (ActionExecution list, 'x) run" where
  "execute_for_targets ex action [] policy_id event_id executed_by ttl_minutes w = (Inr [], w)"
| "execute_for_targets ex action (principal_arn # rest) policy_id event_id executed_by ttl_minutes w =
     (case execute_single_action ex action principal_arn policy_id event_id executed_by
             ttl_minutes w of
        (Inl e, w') \<Rightarrow> (Inl e, w')
      | (Inr execution, w') \<Rightarrow>
          (case execute_for_targets ex action rest policy_id event_id executed_by ttl_minutes w' of
             (Inl e, w'') \<Rightarrow> (Inl e, w'')
           | (Inr executions, w'') \<Rightarrow> (Inr (execution # executions), w'')))"

fun execute_for_actions ::
  "'x IAMExecutor \<Rightarrow> PolicyAction list \<Rightarrow> string list \<Rightarrow> string \<Rightarrow> string \<Rightarrow> string \<Rightarrow> int option
     \<Rightarrow> (ActionExecution list, 'x) run" where
  "execute_for_actions ex [] targets policy_id event_id executed_by ttl_minutes w = (Inr [], w)"
| "execute_for_actions ex (action # rest) targets policy_id event_id executed_by ttl_minutes w =
     (case execute_for_targets ex action targets policy_id event_id executed_by ttl_minutes w of
        (Inl e, w') \<Rightarrow> (Inl e, w')
      | (Inr executions, w') \<Rightarrow>
          (case execute_for_actions ex rest targets policy_id event_id executed_by ttl_minutes w' of
             (Inl e, w'') \<Rightarrow> (Inl e, w'')
           | (Inr others, w'') \<Rightarrow> (Inr (executions @ others), w'')))"

definition execute_action_plan ::
  "'x IAMExecutor \<Rightarrow> ActionPlan \<Rightarrow> string \<Rightarrow> string \<Rightarrow> (ActionExecution list, 'x) run" where
  "execute_action_plan ex plan event_id executed_by w =
     (if \<not> ap_matched plan then (Inl (ValueError ''Cannot execute unmatched plan''), w)
      else if ap_actions plan = [] \<or> some_list (ap_matched_policy_id plan) = []
        then (Inl (ValueError ''Plan must have policy_id and actions''), w)
      else execute_for_actions ex (ap_actions plan) (ap_target_principals plan)
             (the (ap_matched_policy_id plan)) event_id executed_by (ap_ttl_minutes plan) w)"

text \<open>
  \<^verbatim>\<open>_rollback_attach_deny_policy\<close>. The fields of the diff are any values; boto3 turns
  down a parameter that is not a string before it sends anything.
\<close>

definition str_param :: "jval \<Rightarrow> exn + string" where
  "str_param v = (case v of JStr s \<Rightarrow> Inr s
                  | _ \<Rightarrow> Inl (OtherError ''Parameter validation failed''))"

definition get_or_none :: "pydict \<Rightarrow> string \<Rightarrow> jval" where
  "get_or_none d k = (case dict_get d k of None \<Rightarrow> JNone | Some v \<Rightarrow> v)"

text \<open>\<^verbatim>\<open>"guardrails-deny-" in policy_arn\<close> for a value of any type.\<close>

definition guardrails_in :: "jval \<Rightarrow> exn + bool" where
  "guardrails_in v =
     (case v of
        JStr s \<Rightarrow> Inr (contains ''guardrails-deny-'' s)
      | JList xs \<Rightarrow> Inr (JStr ''guardrails-deny-'' \<in> set xs)
      | JDict d \<Rightarrow> Inr (''guardrails-deny-'' \<in> set (map fst d))
      | _ \<Rightarrow> Inl (TypeError ''argument is not iterable''))"

definition delete_if_unattached :: "'x iam_client \<Rightarrow> jval \<Rightarrow> (unit, 'x) run" where
  "delete_if_unattached client policy_arn w =
     (case and_then (pure_result (str_param policy_arn))
             (\<lambda>arn. and_then (call (iam_list_entities_for_policy client arn))
                (\<lambda>(roles, users, groups).
                   if length roles + length users + length groups = 0
                   then call (iam_delete_policy client arn)
                   else pure_result (Inr ()))) w of
        (Inl (ClientError code m), w') \<Rightarrow> (Inr (), w')
      | (r, w') \<Rightarrow> (r, w'))"

definition rollback_attach_deny_policy :: "'x iam_client \<Rightarrow> ActionExecution \<Rightarrow> (unit, 'x) run" where
  "rollback_attach_deny_policy client execution =
     (if truthy (get_or_none (ae_diff execution) ''dry_run'') then pure_result (Inr ())
      else if \<not> (truthy (get_or_none (ae_diff execution) ''policy_arn'')
                 \<and> truthy (get_or_none (ae_diff execution) ''principal_type'')
                 \<and> truthy (get_or_none (ae_diff execution) ''principal_name''))
        then pure_result (Inl (ValueError ''Execution diff missing required fields for rollback''))
      else
        and_then
          (if get_or_none (ae_diff execution) ''principal_type'' = JStr ''role'' then
             and_then (pure_result (str_param (get_or_none (ae_diff execution) ''principal_name'')))
               (\<lambda>name. and_then
                  (pure_result (str_param (get_or_none (ae_diff execution) ''policy_arn'')))
                  (\<lambda>arn. call (iam_detach_role_policy client name arn)))
           else if get_or_none (ae_diff execution) ''principal_type'' = JStr ''user'' then
             and_then (pure_result (str_param (get_or_none (ae_diff execution) ''principal_name'')))
               (\<lambda>name. and_then
                  (pure_result (str_param (get_or_none (ae_diff execution) ''policy_arn'')))
                  (\<lambda>arn. call (iam_detach_user_policy client name arn)))
           else pure_result (Inr ()))
          (\<lambda>_. and_then
             (pure_result (guardrails_in (get_or_none (ae_diff execution) ''policy_arn'')))
             (\<lambda>is_guardrails_policy.
                if is_guardrails_policy
                then delete_if_unattached client (get_or_none (ae_diff execution) ''policy_arn'')
                else pure_result (Inr ()))))"

text \<open>
  \<^verbatim>\<open>rollback_execution\<close> returns its answer and the record as the call leaves it
  (the source changes the caller's object in place). It never raises.
\<close>

definition rollback_execution ::
  "'x IAMExecutor \<Rightarrow> ActionExecution \<Rightarrow> 'x world \<Rightarrow> (bool \<times> ActionExecution) \<times> 'x world" where
  "rollback_execution ex execution w =
     (if ae_status execution \<noteq> Executed then ((False, execution), w)
      else if dry_run ex then ((True, execution), w)
      else if ae_action execution = ''attach_deny_policy'' then
        (case rollback_attach_deny_policy (iam ex) execution w of
           (Inl e, w') \<Rightarrow> ((False, execution), w')
         | (Inr _, w') \<Rightarrow>
             (case utcnow w' of (now, w'') \<Rightarrow>
                ((True, execution\<lparr>ae_status := RolledBack, ae_rolled_back_at := Some now\<rparr>), w'')))
      else if ae_action execution = ''notify_only'' then
        (case utcnow w of (now, w') \<Rightarrow>
           ((True, execution\<lparr>ae_status := RolledBack, ae_rolled_back_at := Some now\<rparr>), w'))
      else ((False, execution), w))"

section \<open>Audit store (audit\_store.py)\<close>

text \<open>
  The DynamoDB table keeps one item per \<^verbatim>\<open>execution_id\<close>. An item is the record
  itself: \<^verbatim>\<open>_execution_to_item\<close> and \<^verbatim>\<open>_item_to_execution\<close> write and read back
  every field, and ISO strings of naive datetimes compare as the datetimes do. A request
  to the table raises what \<open>db_faults\<close> holds for it, if anything.
\<close>

definition db_request :: "'x world \<Rightarrow> exn option \<times> 'x world" where
  "db_request w = (db_faults w (db_calls w), w\<lparr>db_calls := Suc (db_calls w)\<rparr>)"

fun put_item_in :: "ActionExecution \<Rightarrow> ActionExecution list \<Rightarrow> ActionExecution list" where
  "put_item_in item [] = [item]"
| "put_item_in item (x # xs) =
     (if ae_execution_id x = ae_execution_id item then item # xs else x # put_item_in item xs)"

definition table_put_item :: "ActionExecution \<Rightarrow> (unit, 'x) run" where
  "table_put_item item w =
     (case db_request w of
        (Some e, w') \<Rightarrow> (Inl e, w')
      | (None, w') \<Rightarrow> (Inr (), w'\<lparr>table := put_item_in item (table w')\<rparr>))"

definition table_get_item :: "string \<Rightarrow> (ActionExecution option, 'x) run" where
  "table_get_item execution_id w =
     (case db_request w of
        (Some e, w') \<Rightarrow> (Inl e, w')
      | (None, w') \<Rightarrow> (Inr (find (\<lambda>x. ae_execution_id x = execution_id) (table w')), w'))"

text \<open>
  The filter of the scan: \<^verbatim>\<open>attribute_exists(ttl_expires_at) AND ttl_expires_at <=
  :current_time AND #status = :status\<close> with the status \<^verbatim>\<open>executed\<close>.
\<close>

definition is_expired_item :: "datetime \<Rightarrow> ActionExecution \<Rightarrow> bool" where
  "is_expired_item current_time x =
     (case ae_ttl_expires_at x of
        None \<Rightarrow> False
      | Some t \<Rightarrow> t \<le> current_time \<and> ae_status x = Executed)"

definition table_scan_expired :: "datetime \<Rightarrow> (ActionExecution list, 'x) run" where
  "table_scan_expired current_time w =
     (case db_request w of
        (Some e, w') \<Rightarrow> (Inl e, w')
      | (None, w') \<Rightarrow> (Inr (filter (is_expired_item current_time) (table w')), w'))"

text \<open>The methods of \<^verbatim>\<open>AuditStore\<close> catch \<^verbatim>\<open>ClientError\<close> and nothing else.\<close>

definition save_execution :: "ActionExecution \<Rightarrow> (bool, 'x) run" where
  "save_execution execution w =
     (case table_put_item execution w of
        (Inl (ClientError code m), w') \<Rightarrow> (Inr False, w')
      | (Inl e, w') \<Rightarrow> (Inl e, w')
      | (Inr _, w') \<Rightarrow> (Inr True, w'))"

definition update_execution :: "ActionExecution \<Rightarrow> (bool, 'x) run" where
  "update_execution execution w =
     (case table_put_item execution w of
        (Inl (ClientError code m), w') \<Rightarrow> (Inr False, w')
      | (Inl e, w') \<Rightarrow> (Inl e, w')
      | (Inr _, w') \<Rightarrow> (Inr True, w'))"

definition get_execution :: "string \<Rightarrow> (ActionExecution option, 'x) run" where
  "get_execution execution_id w =
     (case table_get_item execution_id w of
        (Inl (ClientError code m), w') \<Rightarrow> (Inr None, w')
      | (r, w') \<Rightarrow> (r, w'))"

definition query_expired_executions :: "datetime \<Rightarrow> (ActionExecution list, 'x) run" where
  "query_expired_executions current_time w =
     (case table_scan_expired current_time w of
        (Inl (ClientError code m), w') \<Rightarrow> (Inr [], w')
      | (r, w') \<Rightarrow> (r, w'))"

section \<open>TTL cleanup (handlers/ttl\_cleanup.py)\<close>

record 'x TTLCleanupHandler =
  th_executor :: "'x IAMExecutor"
  th_notifier :: "'x notifier"
  batch_size :: int

record cleanup_result =
  total_found :: nat
  rolled_back :: nat
  failed :: nat
  skipped :: nat
  errors :: "pydict list"

text \<open>
  The \<^verbatim>\<open>except\<close> branch of \<^verbatim>\<open>_rollback_execution\<close>: the record is marked failed
  and written once more; whatever that write raises is dropped.
\<close>

definition record_rollback_error :: "exn \<Rightarrow> ActionExecution \<Rightarrow> (string, 'x) run" where
  "record_rollback_error e execution w =
     (case update_execution
             (execution\<lparr>ae_status := Failed,
                ae_diff := dict_set (ae_diff execution) ''rollback_error'' (JStr (str_exn e))\<rparr>) w of
        (_, w') \<Rightarrow> (Inr ''failed'', w'))"

text \<open>\<^verbatim>\<open>TTLCleanupHandler._rollback_execution\<close>.\<close>

definition ttl_rollback_execution ::
  "'x TTLCleanupHandler \<Rightarrow> ActionExecution \<Rightarrow> (string, 'x) run" where
  "ttl_rollback_execution h execution w =
     (if ae_status execution \<noteq> Executed then (Inr ''skipped'', w)
      else case rollback_execution (th_executor h) execution w of
        ((True, execution1), w1) \<Rightarrow>
          (case utcnow w1 of (now, w2) \<Rightarrow>
             (case update_execution
                     (execution1\<lparr>ae_status := RolledBack, ae_rolled_back_at := Some now\<rparr>) w2 of
                (Inl e, w3) \<Rightarrow>
                  record_rollback_error e
                    (execution1\<lparr>ae_status := RolledBack, ae_rolled_back_at := Some now\<rparr>) w3
              | (Inr _, w3) \<Rightarrow>
                  (case call (send_rollback_confirmation (th_notifier h)
                                (execution1\<lparr>ae_status := RolledBack, ae_rolled_back_at := Some now\<rparr>))
                          w3 of
                     (_, w4) \<Rightarrow> (Inr ''rolled_back'', w4))))
      | ((False, execution1), w1) \<Rightarrow>
          (case update_execution
                  (execution1\<lparr>ae_status := Failed,
                     ae_diff := dict_set (ae_diff execution1) ''rollback_error''
                                  (JStr ''Rollback returned False'')\<rparr>) w1 of
             (Inl e, w2) \<Rightarrow>
               record_rollback_error e
                 (execution1\<lparr>ae_status := Failed,
                    ae_diff := dict_set (ae_diff execution1) ''rollback_error''
                                 (JStr ''Rollback returned False'')\<rparr>) w2
           | (Inr _, w2) \<Rightarrow> (Inr ''failed'', w2)))"

text \<open>\<^verbatim>\<open>xs[:n]\<close> for any integer \<open>n\<close>: a negative \<open>n\<close> counts from the end.\<close>

definition slice_to :: "int \<Rightarrow> 'a list \<Rightarrow> 'a list" where
  "slice_to n xs = (if n \<ge> 0 then take (nat n) xs else take (length xs - nat (- n)) xs)"

text \<open>
  The loop over the batch with its counters \<open>(rolled_back, failed, skipped, errors)\<close>.
  A result other than the three strings changes no counter, as in the source.
\<close>

fun cleanup_loop ::
  "'x TTLCleanupHandler \<Rightarrow> ActionExecution list \<Rightarrow> nat \<times> nat \<times> nat \<times> pydict list \<Rightarrow> 'x world
     \<Rightarrow> (nat \<times> nat \<times> nat \<times> pydict list) \<times> 'x world" where
  "cleanup_loop h [] counters w = (counters, w)"
| "cleanup_loop h (execution # rest) (n_rolled_back, n_failed, n_skipped, errs) w =
     (case ttl_rollback_execution h execution w of
        (Inr result, w') \<Rightarrow>
          cleanup_loop h rest
            (if result = ''rolled_back'' then (n_rolled_back + 1, n_failed, n_skipped, errs)
             else if result = ''skipped'' then (n_rolled_back, n_failed, n_skipped + 1, errs)
             else if result = ''failed'' then (n_rolled_back, n_failed + 1, n_skipped, errs)
             else (n_rolled_back, n_failed, n_skipped, errs)) w'
      | (Inl e, w') \<Rightarrow>
          cleanup_loop h rest
            (n_rolled_back, n_failed + 1, n_skipped,
             errs @ [[(''execution_id'', JStr (ae_execution_id execution)),
                      (''error'', JStr (str_exn e)),
                      (''type'', JStr ''unexpected_error'')]]) w')"

text \<open>\<^verbatim>\<open>_send_failure_alert\<close>: two clock readings, one message, every exception dropped.\<close>

definition send_failure_alert ::
  "'x TTLCleanupHandler \<Rightarrow> nat \<Rightarrow> pydict list \<Rightarrow> 'x world \<Rightarrow> 'x world" where
  "send_failure_alert h failed_count errs w =
     (case utcnow w of (t1, w1) \<Rightarrow>
        (case utcnow w1 of (t2, w2) \<Rightarrow>
           snd (call (send_error_alert (th_notifier h) failed_count errs t1 t2) w2)))"

definition cleanup_expired_executions ::
  "'x TTLCleanupHandler \<Rightarrow> 'x world \<Rightarrow> cleanup_result \<times> 'x world" where
  "cleanup_expired_executions h w =
     (case utcnow w of (now, w1) \<Rightarrow>
        (case query_expired_executions now w1 of
           (Inl e, w2) \<Rightarrow>
             (\<lparr>total_found = 0, rolled_back = 0, failed = 0, skipped = 0,
               errors = [[(''error'', JStr (str_exn e)), (''type'', JStr ''cleanup_run_failure'')]]\<rparr>,
              w2)
         | (Inr expired_executions, w2) \<Rightarrow>
             (if expired_executions = [] then
                (\<lparr>total_found = 0, rolled_back = 0, failed = 0, skipped = 0, errors = []\<rparr>, w2)
              else
                (case cleanup_loop h
                        (if int (length expired_executions) > batch_size h
                         then slice_to (batch_size h) expired_executions
                         else expired_executions)
                        (0, 0, 0, []) w2 of
                   ((n_rolled_back, n_failed, n_skipped, errs), w3) \<Rightarrow>
                     (\<lparr>total_found =
                         length (if int (length expired_executions) > batch_size h
                                 then slice_to (batch_size h) expired_executions
                                 else expired_executions),
                       rolled_back = n_rolled_back, failed = n_failed, skipped = n_skipped,
                       errors = errs\<rparr>,
                      if n_failed > 0 then send_failure_alert h n_failed errs w3 else w3)))))"

section \<open>Approval webhook (handlers/approval\_webhook.py)\<close>

text \<open>
  What \<^verbatim>\<open>datetime.fromisoformat\<close> returns: a naive datetime, or one with a UTC
  offset, given here by its instant. The parser itself is a parameter of the handler's
  model; it raises \<^verbatim>\<open>ValueError\<close> for a string that it cannot read.
\<close>

datatype parsed_datetime = Naive datetime | Aware datetime

record 'x ApprovalWebhookHandler =
  aw_executor :: "'x IAMExecutor"
  aw_notifier :: "'x notifier"
  approval_secret :: string
  approval_timeout_hours :: int
  fromisoformat :: "string \<Rightarrow> exn + parsed_datetime"

record response =
  statusCode :: nat
  body :: string

definition generate_signature :: "'x ApprovalWebhookHandler \<Rightarrow> string \<Rightarrow> string \<Rightarrow> string" where
  "generate_signature h execution_id timestamp =
     hexdigest (hmac_sha256 (utf8 (approval_secret h)) (utf8 (execution_id @ '':'' @ timestamp)))"

text \<open>\<^verbatim>\<open>hmac.compare_digest\<close> on two strings: both must be ASCII.\<close>

definition compare_digest :: "string \<Rightarrow> string \<Rightarrow> exn + bool" where
  "compare_digest a b =
     (if list_all (\<lambda>c. (of_char c :: nat) < 128) (a @ b) then Inr (a = b)
      else Inl (TypeError ''comparing strings with non-ASCII characters is not supported''))"

definition verify_signature ::
  "'x ApprovalWebhookHandler \<Rightarrow> string \<Rightarrow> string \<Rightarrow> string \<Rightarrow> exn + bool" where
  "verify_signature h execution_id timestamp signature =
     compare_digest (generate_signature h execution_id timestamp) signature"

text \<open>\<^verbatim>\<open>timestamp.replace("Z", "+00:00")\<close>.\<close>

definition replace_Z :: "string \<Rightarrow> string" where
  "replace_Z s = concat (map (\<lambda>c. if c = CHR ''Z'' then ''+00:00'' else [c]) s)"

text \<open>
  \<^verbatim>\<open>_is_expired\<close>. The clock is read after the timestamp has been parsed. Only
  \<^verbatim>\<open>ValueError\<close> and \<^verbatim>\<open>AttributeError\<close> are caught; the subtraction of a
  datetime with an offset from the naive reading of the clock raises \<^verbatim>\<open>TypeError\<close>.
\<close>

definition is_expired :: "'x ApprovalWebhookHandler \<Rightarrow> string \<Rightarrow> (bool, 'x) run" where
  "is_expired h timestamp w =
     (case fromisoformat h (replace_Z timestamp) of
        Inl (ValueError m) \<Rightarrow> (Inr True, w)
      | Inl (AttributeError m) \<Rightarrow> (Inr True, w)
      | Inl e \<Rightarrow> (Inl e, w)
      | Inr ts \<Rightarrow>
          (case utcnow w of (now, w') \<Rightarrow>
             (case ts of
                Aware t \<Rightarrow>
                  (Inl (TypeError ''cannot subtract offset-naive and offset-aware datetimes''), w')
              | Naive t \<Rightarrow> (Inr (now - t > approval_timeout_hours h * 3600000000), w'))))"

fun status_str :: "exec_status \<Rightarrow> string" where
  "status_str Planned = ''planned''"
| "status_str Approved = ''approved''"
| "status_str Executed = ''executed''"
| "status_str RolledBack = ''rolled_back''"
| "status_str Failed = ''failed''"

text \<open>
  \<^verbatim>\<open>statements[0].get("Action", [])\<close> for a truthy value \<open>statements\<close> of any type.
\<close>

definition first_statement_action :: "jval \<Rightarrow> exn + jval" where
  "first_statement_action statements =
     (case statements of
        JList (JDict sd # rest) \<Rightarrow>
          Inr (case dict_get sd ''Action'' of None \<Rightarrow> JList [] | Some v \<Rightarrow> v)
      | JList xs \<Rightarrow> Inl (AttributeError ''object has no attribute get'')
      | JStr s \<Rightarrow> Inl (AttributeError ''object has no attribute get'')
      | JDict d \<Rightarrow> Inl (OtherError ''0'')
      | _ \<Rightarrow> Inl (TypeError ''object is not subscriptable''))"

text \<open>
  The deny actions of a stored execution: \<^verbatim>\<open>would_deny\<close> of its diff, or, when that
  is falsy, the first statement of \<^verbatim>\<open>policy_document\<close>.
\<close>

definition stored_deny_actions :: "pydict \<Rightarrow> exn + jval" where
  "stored_deny_actions diff =
     (if truthy (get_or_none diff ''would_deny'') then Inr (get_or_none diff ''would_deny'')
      else case (case dict_get diff ''policy_document'' of None \<Rightarrow> JDict [] | Some v \<Rightarrow> v) of
        JDict policy_doc \<Rightarrow>
          (if truthy (case dict_get policy_doc ''Statement'' of None \<Rightarrow> JList [] | Some v \<Rightarrow> v)
           then first_statement_action
                  (case dict_get policy_doc ''Statement'' of None \<Rightarrow> JList [] | Some v \<Rightarrow> v)
           else Inr (get_or_none diff ''would_deny''))
      | _ \<Rightarrow> Inl (AttributeError ''object has no attribute get''))"

text \<open>
  The constructor \<^verbatim>\<open>PolicyAction(type=..., deny=...)\<close> with its validators, for a type
  given as a string and a deny list given as any value.
\<close>

fun jstrs :: "jval list \<Rightarrow> string list option" where
  "jstrs [] = Some []"
| "jstrs (JStr s # xs) = (case jstrs xs of None \<Rightarrow> None | Some ss \<Rightarrow> Some (s # ss))"
| "jstrs (_ # xs) = None"

definition dangerous_actions :: "string list" where
  "dangerous_actions =
     [''s3:DeleteBucket'', ''dynamodb:DeleteTable'', ''rds:DeleteDBInstance'',
      ''ec2:TerminateInstances'', ''ec2:DeleteVolume'']"

definition new_PolicyAction :: "string \<Rightarrow> jval \<Rightarrow> exn + PolicyAction" where
  "new_PolicyAction type_name deny =
     (if type_name \<noteq> ''attach_deny_policy'' \<and> type_name \<noteq> ''notify_only''
        then Inl (ValueError ''validation error for PolicyAction: type'')
      else case (case deny of
                   JNone \<Rightarrow> Some None
                 | JList xs \<Rightarrow> (case jstrs xs of None \<Rightarrow> None | Some ss \<Rightarrow> Some (Some ss))
                 | _ \<Rightarrow> None) of
        None \<Rightarrow> Inl (ValueError ''validation error for PolicyAction: deny'')
      | Some deny_list \<Rightarrow>
          (if list_ex (\<lambda>a. a \<in> set dangerous_actions) (some_list deny_list)
             then Inl (ValueError ''validation error for PolicyAction: dangerous action'')
           else if type_name = ''attach_deny_policy'' \<and> some_list deny_list = []
             then Inl (ValueError ''deny list is required for attach_deny_policy action'')
           else Inr \<lparr>pa_type = (if type_name = ''attach_deny_policy''
                                 then AttachDenyPolicy else NotifyOnly),
                     pa_deny = deny_list\<rparr>))"

text \<open>
  Step 5 of \<^verbatim>\<open>handle_approval\<close>, the body of its \<^verbatim>\<open>try\<close>: the plan is rebuilt from
  the stored record, with \<^verbatim>\<open>mode="manual"\<close> and \<^verbatim>\<open>ttl_minutes=0\<close>, executed, and the
  first execution written back under the original id.
\<close>

definition rebuild_plan :: "ActionExecution \<Rightarrow> jval \<Rightarrow> exn + ActionPlan" where
  "rebuild_plan execution deny_actions =
     (case new_PolicyAction (ae_action execution) deny_actions of
        Inl e \<Rightarrow> Inl e
      | Inr action \<Rightarrow>
          new_ActionPlan True (Some (ae_policy_id execution)) (Some Manual) [action] (Some 0)
            [ae_target execution])"

definition approved_body :: "string \<Rightarrow> exec_status \<Rightarrow> string" where
  "approved_body execution_id status =
     json_dumps False
       (JDict [(''message'', JStr ''Guardrail applied successfully''),
               (''execution_id'', JStr execution_id),
               (''status'', JStr (status_str status))])"

definition execute_approved ::
  "'x ApprovalWebhookHandler \<Rightarrow> ActionExecution \<Rightarrow> string \<Rightarrow> string \<Rightarrow> (response, 'x) run" where
  "execute_approved h execution execution_id user =
     and_then (pure_result (stored_deny_actions (ae_diff execution)))
       (\<lambda>deny_actions.
          if ae_action execution = ''attach_deny_policy'' \<and> \<not> truthy deny_actions
          then pure_result
                 (Inr \<lparr>statusCode = 500, body = ''No deny actions found in execution record''\<rparr>)
          else
            and_then (pure_result (rebuild_plan execution deny_actions))
              (\<lambda>action_plan.
            and_then (execute_action_plan (aw_executor h) action_plan (ae_event_id execution)
                        (''user:'' @ user))
              (\<lambda>executions.
                 case executions of
                   [] \<Rightarrow> pure_result (Inr \<lparr>statusCode = 500, body = ''Execution failed''\<rparr>)
                 | new_execution # rest \<Rightarrow>
                     and_then (update_execution (new_execution\<lparr>ae_execution_id := execution_id\<rparr>))
                       (\<lambda>_ w.
                          (Inr \<lparr>statusCode = 200,
                                body = approved_body execution_id (ae_status new_execution)\<rparr>,
                           snd (call (send_execution_confirmation (aw_notifier h)
                                        (new_execution\<lparr>ae_execution_id := execution_id\<rparr>)) w))))))"

definition handle_approval ::
  "'x ApprovalWebhookHandler \<Rightarrow> string \<Rightarrow> string \<Rightarrow> string \<Rightarrow> string \<Rightarrow> (response, 'x) run" where
  "handle_approval h execution_id signature timestamp user w =
     (case verify_signature h execution_id timestamp signature of
        Inl e \<Rightarrow> (Inl e, w)
      | Inr False \<Rightarrow> (Inr \<lparr>statusCode = 403, body = ''Invalid signature''\<rparr>, w)
      | Inr True \<Rightarrow>
          (case is_expired h timestamp w of
             (Inl e, w1) \<Rightarrow> (Inl e, w1)
           | (Inr True, w1) \<Rightarrow> (Inr \<lparr>statusCode = 410, body = ''Approval link expired''\<rparr>, w1)
           | (Inr False, w1) \<Rightarrow>
               (case get_execution execution_id w1 of
                  (Inl e, w2) \<Rightarrow> (Inl e, w2)
                | (Inr None, w2) \<Rightarrow>
                    (Inr \<lparr>statusCode = 404, body = ''Execution not found''\<rparr>, w2)
                | (Inr (Some execution), w2) \<Rightarrow>
                    (if ae_status execution \<noteq> Planned then
                       (Inr \<lparr>statusCode = 409,
                             body = ''Already processed (status: ''
                                      @ status_str (ae_status execution) @ '')''\<rparr>, w2)
                     else
                       (case execute_approved h execution execution_id user w2 of
                          (Inr resp, w3) \<Rightarrow> (Inr resp, w3)
                        | (Inl e, w3) \<Rightarrow>
                            (case update_execution
                                    (execution\<lparr>ae_status := Failed,
                                       ae_diff := [(''error'', JStr (str_exn e))]\<rparr>) w3 of
                               (Inl e', w4) \<Rightarrow> (Inl e', w4)
                             | (Inr _, w4) \<Rightarrow>
                                 (Inr \<lparr>statusCode = 500,
                                       body = ''Execution failed: '' @ str_exn e\<rparr>, w4)))))))"

section \<open>Auxiliary notions for the statements\<close>

text \<open>
  \<open>rejected_by event ps w\<close> is the world in which the engine arrives after it has passed
  over every policy of \<open>ps\<close>, starting in \<open>w\<close>: each one is disabled, or enabled and
  turned down by the matcher. It is \<open>None\<close> when some policy of \<open>ps\<close> is accepted or
  makes the matcher raise.
\<close>

fun rejected_by :: "CostEvent \<Rightarrow> GuardrailPolicy list \<Rightarrow> 'x world \<Rightarrow> 'x world option" where
  "rejected_by event [] w = Some w"
| "rejected_by event (policy # rest) w =
     (if \<not> gp_enabled policy then rejected_by event rest w
      else case match_event event policy w of
        (Inr False, w') \<Rightarrow> rejected_by event rest w'
      | _ \<Rightarrow> None)"

text \<open>
  An action as \<^verbatim>\<open>PolicyAction\<close> admits it at construction: one that attaches a deny
  policy names at least one action to deny.
\<close>

definition valid_action :: "PolicyAction \<Rightarrow> bool" where
  "valid_action a = (pa_type a = NotifyOnly \<or> some_list (pa_deny a) \<noteq> [])"

text \<open>
  For the proofs about the audit table: \<open>same_ledger w w'\<close> says that the table, the
  faults still to come and the clock are the same in both worlds, and \<open>preserves m\<close>
  that the statement \<open>m\<close> leaves them so. \<open>carried y0 y\<close> relates an item to what a
  cleanup run may turn it into: same id, same TTL, and either untouched or no longer
  executed.
\<close>

definition same_ledger :: "'x world \<Rightarrow> 'x world \<Rightarrow> bool" where
  "same_ledger w w' = (table w' = table w \<and> db_faults w' = db_faults w \<and> clock w' = clock w)"

definition preserves :: "('a, 'x) run \<Rightarrow> bool" where
  "preserves m = (\<forall>w. same_ledger w (snd (m w)))"

definition carried :: "ActionExecution \<Rightarrow> ActionExecution \<Rightarrow> bool" where
  "carried y0 y =
     (ae_execution_id y = ae_execution_id y0 \<and> ae_ttl_expires_at y = ae_ttl_expires_at y0
      \<and> (y = y0 \<or> ae_status y \<noteq> Executed))"

section \<open>Sample data\<close>

text \<open>
  The scenarios of the specification: a budget event of 800 USD (and one of 250 USD) for
  account 123456789012, a dry-run policy that notifies from 100 USD, and a manual policy
  that denies \<^verbatim>\<open>ec2:RunInstances\<close> to a CI role from 500 USD with a TTL of 180 minutes.
  The sample clock starts at 2025-01-15T10:30:00, a Wednesday, and advances by one
  millisecond per reading.
\<close>

definition sample_world :: "unit world" where
  "sample_world =
     \<lparr>clock = (\<lambda>n. 1736937000000000 + int n * 1000), ticks = 0,
      uuids = (\<lambda>n. ''00000000-0000-4000-8000-00000000000'' @ [''0123456789'' ! (n mod 10)]),
      uuid_count = 0, table = [], db_faults = (\<lambda>n. None), db_calls = 0, ext = ()\<rparr>"

definition sample_event :: "rat \<Rightarrow> CostEvent" where
  "sample_event amount =
     \<lparr>ce_event_id = ''evt-abc123'', ce_source = Budgets, ce_account_id = ''123456789012'',
      ce_amount = amount, ce_time_window = ''2025-01'',
      ce_details = [(''service'', JStr ''Amazon Elastic Compute Cloud''),
                    (''region'', JStr ''us-east-1'')]\<rparr>"

definition sample_match :: "rat \<Rightarrow> PolicyMatch" where
  "sample_match min_amount =
     \<lparr>pm_source = [Budgets], pm_account_ids = [''123456789012''],
      pm_min_amount_usd = min_amount, pm_max_amount_usd = None,
      pm_services = None, pm_regions = None\<rparr>"

definition sample_scope :: PolicyScope where
  "sample_scope =
     \<lparr>sc_principals = [\<lparr>pr_type = IamRole,
                         pr_arn = ''arn:aws:iam::123456789012:role/ci-deployer''\<rparr>],
      sc_regions = None\<rparr>"

definition policy_notify :: GuardrailPolicy where
  "policy_notify =
     \<lparr>gp_policy_id = ''notify-all'', gp_enabled = True, gp_mode = DryRun, gp_ttl_minutes = 0,
      gp_match = sample_match 100, gp_scope = sample_scope,
      gp_actions = [\<lparr>pa_type = NotifyOnly, pa_deny = None\<rparr>], gp_exceptions = None\<rparr>"

definition policy_manual :: GuardrailPolicy where
  "policy_manual =
     \<lparr>gp_policy_id = ''ci-ec2-spike'', gp_enabled = True, gp_mode = Manual,
      gp_ttl_minutes = 180, gp_match = sample_match 500, gp_scope = sample_scope,
      gp_actions = [\<lparr>pa_type = AttachDenyPolicy, pa_deny = Some [''ec2:RunInstances'']\<rparr>],
      gp_exceptions = None\<rparr>"

definition office_hours :: PolicyExceptions where
  "office_hours =
     \<lparr>px_accounts = None, px_principals = None,
      px_time_windows = Some [\<lparr>tw_start = (9, 0), tw_end = (17, 0), tw_timezone = ''UTC'',
                                tw_days = [''mon'', ''tue'', ''wed'', ''thu'', ''fri'']\<rparr>]\<rparr>"

definition allowlisted_account :: PolicyExceptions where
  "allowlisted_account =
     \<lparr>px_accounts = Some [''123456789012''], px_principals = None, px_time_windows = None\<rparr>"


text \<open>
  A stand-in for IAM, STS and Slack, for the examples only: roles and users with the ARNs
  of their attached policies, the managed policies that exist, and the number of Slack
  messages sent. A request that names a missing role, user or policy raises
  \<^verbatim>\<open>NoSuchEntity\<close>.
\<close>

record sample_cloud =
  sc_roles :: "(string \<times> string list) list"
  sc_users :: "(string \<times> string list) list"
  sc_policies :: "string list"
  sc_messages :: nat

definition no_such_entity :: exn where
  "no_such_entity = ClientError ''NoSuchEntity'' ''An error occurred (NoSuchEntity)''"

definition sample_list_attached ::
  "(string \<times> string list) list \<Rightarrow> string \<Rightarrow> sample_cloud \<Rightarrow> (exn + string list) \<times> sample_cloud" where
  "sample_list_attached entities name s =
     (case map_of entities name of
        None \<Rightarrow> (Inl no_such_entity, s)
      | Some arns \<Rightarrow> (Inr arns, s))"

definition sample_iam :: "sample_cloud iam_client" where
  "sample_iam =
     \<lparr>iam_get_policy = (\<lambda>arn s.
        if arn \<in> set (sc_policies s) then (Inr (), s) else (Inl no_such_entity, s)),
      iam_create_policy = (\<lambda>name document description s.
        (Inr (''arn:aws:iam::123456789012:policy/'' @ name),
         s\<lparr>sc_policies := sc_policies s @ [''arn:aws:iam::123456789012:policy/'' @ name]\<rparr>)),
      iam_list_attached_role_policies = (\<lambda>name s. sample_list_attached (sc_roles s) name s),
      iam_list_attached_user_policies = (\<lambda>name s. sample_list_attached (sc_users s) name s),
      iam_attach_role_policy = (\<lambda>name arn s.
        case map_of (sc_roles s) name of
          None \<Rightarrow> (Inl no_such_entity, s)
        | Some arns \<Rightarrow>
            (Inr (), s\<lparr>sc_roles := map (\<lambda>(n, a). if n = name then (n, remove1 arn a @ [arn])
                                                 else (n, a)) (sc_roles s)\<rparr>)),
      iam_attach_user_policy = (\<lambda>name arn s.
        case map_of (sc_users s) name of
          None \<Rightarrow> (Inl no_such_entity, s)
        | Some arns \<Rightarrow>
            (Inr (), s\<lparr>sc_users := map (\<lambda>(n, a). if n = name then (n, remove1 arn a @ [arn])
                                                 else (n, a)) (sc_users s)\<rparr>)),
      iam_detach_role_policy = (\<lambda>name arn s.
        case map_of (sc_roles s) name of
          None \<Rightarrow> (Inl no_such_entity, s)
        | Some arns \<Rightarrow>
            (if arn \<in> set arns
             then (Inr (), s\<lparr>sc_roles := map (\<lambda>(n, a). if n = name then (n, remove1 arn a)
                                                       else (n, a)) (sc_roles s)\<rparr>)
             else (Inl no_such_entity, s))),
      iam_detach_user_policy = (\<lambda>name arn s.
        case map_of (sc_users s) name of
          None \<Rightarrow> (Inl no_such_entity, s)
        | Some arns \<Rightarrow>
            (if arn \<in> set arns
             then (Inr (), s\<lparr>sc_users := map (\<lambda>(n, a). if n = name then (n, remove1 arn a)
                                                       else (n, a)) (sc_users s)\<rparr>)
             else (Inl no_such_entity, s))),
      iam_list_entities_for_policy = (\<lambda>arn s.
        (Inr (map fst (filter (\<lambda>(n, a). arn \<in> set a) (sc_roles s)),
              map fst (filter (\<lambda>(n, a). arn \<in> set a) (sc_users s)), []), s)),
      iam_delete_policy = (\<lambda>arn s.
        if arn \<in> set (sc_policies s)
        then (Inr (), s\<lparr>sc_policies := remove1 arn (sc_policies s)\<rparr>)
        else (Inl no_such_entity, s)),
      sts_get_caller_identity = (\<lambda>s. (Inr ''123456789012'', s))\<rparr>"

definition sample_notifier :: "sample_cloud notifier" where
  "sample_notifier =
     \<lparr>send_execution_confirmation = (\<lambda>execution s. (Inr True, s\<lparr>sc_messages := sc_messages s + 1\<rparr>)),
      send_rollback_confirmation = (\<lambda>execution s. (Inr True, s\<lparr>sc_messages := sc_messages s + 1\<rparr>)),
      send_error_alert = (\<lambda>n errs t1 t2 s. (Inr True, s\<lparr>sc_messages := sc_messages s + 1\<rparr>))\<rparr>"

definition real_executor :: "sample_cloud IAMExecutor" where
  "real_executor = \<lparr>dry_run = False, iam = sample_iam\<rparr>"

definition dry_executor :: "sample_cloud IAMExecutor" where
  "dry_executor = \<lparr>dry_run = True, iam = sample_iam\<rparr>"

text \<open>
  A world with the sample clock, an account that holds the role \<^verbatim>\<open>ci-deployer\<close> and
  the user \<^verbatim>\<open>alice\<close> without attached policies, and the audit table given.
\<close>

definition cloud_world :: "ActionExecution list \<Rightarrow> sample_cloud world" where
  "cloud_world items =
     \<lparr>clock = (\<lambda>n. 1736937000000000 + int n * 1000), ticks = 0,
      uuids = (\<lambda>n. ''00000000-0000-4000-8000-00000000000'' @ [''0123456789'' ! (n mod 10)]),
      uuid_count = 0, table = items, db_faults = (\<lambda>n. None), db_calls = 0,
      ext = \<lparr>sc_roles = [(''ci-deployer'', [])], sc_users = [(''alice'', [])],
             sc_policies = [], sc_messages = 0\<rparr>\<rparr>"

text \<open>
  An executed notification, five minutes old with a TTL that ended one minute before the
  sample clock starts, and the planned execution that the manual sample policy leaves in
  the table for the event of 800 USD.
\<close>

definition executed_item :: "string \<Rightarrow> ActionExecution" where
  "executed_item execution_id =
     \<lparr>ae_execution_id = execution_id, ae_policy_id = ''notify-all'', ae_event_id = ''evt-abc123'',
      ae_status = Executed, ae_executed_at = Some 1736936700000000,
      ae_executed_by = ''system:auto'', ae_action = ''notify_only'',
      ae_target = ''arn:aws:iam::123456789012:role/ci-deployer'',
      ae_diff = [(''action'', JStr ''notify_only''), (''no_changes'', JBool True)],
      ae_ttl_expires_at = Some 1736936940000000, ae_rolled_back_at = None\<rparr>"

definition planned_item :: ActionExecution where
  "planned_item =
     \<lparr>ae_execution_id = ''exec-1'', ae_policy_id = ''ci-ec2-spike'', ae_event_id = ''evt-abc123'',
      ae_status = Planned, ae_executed_at = Some 1736936700000000,
      ae_executed_by = ''system:budgets_event'', ae_action = ''attach_deny_policy'',
      ae_target = ''arn:aws:iam::123456789012:role/ci-deployer'',
      ae_diff = [(''dry_run'', JBool True), (''would_deny'', JList [JStr ''ec2:RunInstances'']),
                 (''target'', JStr ''arn:aws:iam::123456789012:role/ci-deployer'')],
      ae_ttl_expires_at = None, ae_rolled_back_at = None\<rparr>"

text \<open>
  A parser for the examples: it reads the two timestamps that they use,
  2025-01-15T09:30:00, one hour before the sample clock starts, and 2025-01-15T10:00:00.
\<close>

definition sample_fromisoformat :: "string \<Rightarrow> exn + parsed_datetime" where
  "sample_fromisoformat s =
     (if s = ''2025-01-15T09:30:00'' then Inr (Naive 1736933400000000)
      else if s = ''2025-01-15T10:00:00'' then Inr (Naive 1736935200000000)
      else Inl (ValueError (''Invalid isoformat string: '' @ s)))"

definition sample_handler :: "sample_cloud ApprovalWebhookHandler" where
  "sample_handler =
     \<lparr>aw_executor = real_executor, aw_notifier = sample_notifier,
      approval_secret = ''test-secret-key'', approval_timeout_hours = 1,
      fromisoformat = sample_fromisoformat\<rparr>"

definition sample_cleanup :: "int \<Rightarrow> sample_cloud TTLCleanupHandler" where
  "sample_cleanup n = \<lparr>th_executor = real_executor, th_notifier = sample_notifier, batch_size = n\<rparr>"

text \<open>
  A plan with two targets: a group, which the executor does not support, and the CI role.
\<close>

definition two_target_plan :: ActionPlan where
  "two_target_plan =
     \<lparr>ap_matched = True, ap_matched_policy_id = Some ''ci-ec2-spike'', ap_mode = Some Auto,
      ap_actions = [\<lparr>pa_type = AttachDenyPolicy, pa_deny = Some [''ec2:RunInstances'']\<rparr>],
      ap_ttl_minutes = Some 180,
      ap_target_principals = [''arn:aws:iam::123456789012:group/admins'',
                              ''arn:aws:iam::123456789012:role/ci-deployer'']\<rparr>"

text \<open>An audit table with two expired executions and a planned one between them.\<close>

definition three_items :: "ActionExecution list" where
  "three_items = [executed_item ''exec-1'', planned_item\<lparr>ae_execution_id := ''exec-4''\<rparr>,
                  executed_item ''exec-2'']"

text \<open>
  The record that the approval of \<open>planned_item\<close> by alice leaves in the table.
\<close>

definition approved_item :: ActionExecution where
  "approved_item =
     \<lparr>ae_execution_id = ''exec-1'', ae_policy_id = ''ci-ec2-spike'', ae_event_id = ''evt-abc123'',
      ae_status = Executed, ae_executed_at = Some 1736937000001000,
      ae_executed_by = ''user:alice'', ae_action = ''attach_deny_policy'',
      ae_target = ''arn:aws:iam::123456789012:role/ci-deployer'',
      ae_diff =
        [(''policy_arn'', JStr (''arn:aws:iam::123456789012:policy/''
                                 @ deny_policy_name [''ec2:RunInstances''] ''ci-ec2-spike'')),
         (''policy_name'', JStr (deny_policy_name [''ec2:RunInstances''] ''ci-ec2-spike'')),
         (''principal_arn'', JStr ''arn:aws:iam::123456789012:role/ci-deployer''),
         (''principal_type'', JStr ''role''),
         (''principal_name'', JStr ''ci-deployer''),
         (''before'', JList []),
         (''after'', JList [JStr (''arn:aws:iam::123456789012:policy/''
                                  @ deny_policy_name [''ec2:RunInstances''] ''ci-ec2-spike'')]),
         (''denied_actions'', JList [JStr ''ec2:RunInstances''])],
      ae_ttl_expires_at = None, ae_rolled_back_at = None\<rparr>"

section \<open>Evaluation of the hash functions on literals\<close>

lemma replicate_numeral: "replicate (numeral k) x = x # replicate (pred_numeral k) x"
  by (simp only: numeral_eq_Suc [of k] replicate.simps)

lemma be_bytes_numeral: "be_bytes (numeral k) n = be_bytes (pred_numeral k) (n div 256) @ [n mod 256]"
  by (simp only: numeral_eq_Suc [of k] be_bytes.simps)

lemma schedule_numeral: "schedule (numeral k) ws = sched_push (pred_numeral k) (sched_word ws) ws"
  by (simp only: numeral_eq_Suc [of k] schedule.simps)

lemma absorb_numeral: "absorb (numeral k) hs bs = absorb (pred_numeral k) (compress hs (take 64 bs)) (drop 64 bs)"
  by (simp only: numeral_eq_Suc [of k] absorb.simps)

lemmas sha_eval = json_string_def json_escape_char_def utf8_def pad_def sha256_def hexdigest_def
  hexdigit_def compress_def H256_def K256_def round_step_def round_next_def sched_word_def
  ssig0_def ssig1_def bsig0_def bsig1_def ch_def maj_def rotr_def w32_def
  replicate_numeral be_bytes_numeral schedule_numeral absorb_numeral

section \<open>Policy engine: first match wins\<close>

lemmas sample_defs = sample_world_def sample_event_def sample_match_def sample_scope_def
  policy_notify_def policy_manual_def office_hours_def allowlisted_account_def


lemma evaluate_append_rejected:
  "rejected_by event pre w = Some w1 \<Longrightarrow> evaluate event (pre @ rest) w = evaluate event rest w1"
proof (induction pre arbitrary: w)
  case Nil
  then show ?case by simp
next
  case (Cons q pre)
  show ?case
  proof (cases "gp_enabled q")
    case False
    with Cons show ?thesis by simp
  next
    case True
    obtain r w' where m: "match_event event q w = (r, w')" by (cases "match_event event q w")
    with True Cons.prems have r: "r = Inr False" and rej: "rejected_by event pre w' = Some w1"
      by (auto split: sum.splits bool.splits)
    from Cons.IH [OF rej] True m r show ?thesis by simp
  qed
qed

lemma evaluate_filter_enabled:
  "evaluate event (filter gp_enabled ps) w = evaluate event ps w"
  by (induction ps arbitrary: w) (auto split: prod.splits sum.splits bool.splits)

lemma build_action_plan_ok:
  "gp_policy_id p \<noteq> [] \<Longrightarrow> gp_actions p \<noteq> [] \<Longrightarrow>
   build_action_plan event p =
     Inr \<lparr>ap_matched = True, ap_matched_policy_id = Some (gp_policy_id p),
          ap_mode = Some (gp_mode p), ap_actions = gp_actions p,
          ap_ttl_minutes = Some (gp_ttl_minutes p),
          ap_target_principals = map pr_arn (sc_principals (gp_scope p))\<rparr>"
  by (simp add: build_action_plan_def new_ActionPlan_def)

text \<open>
  Claim C5. \<open>evaluate\<close> goes through the policies in the order given and skips the
  disabled ones. When every policy of \<open>pre\<close> is disabled or turned down by the matcher and
  the matcher accepts the enabled policy \<open>p\<close> that follows, the result is the plan built
  from \<open>p\<close>, whatever comes after \<open>p\<close> (also further matching policies). That plan
  carries \<open>p\<close>'s id, mode, actions and TTL unchanged and the ARNs of its scope's
  principals, in order; building it needs the id and the action list to be non-empty, as
  \<^verbatim>\<open>ActionPlan\<close> checks. When no policy is accepted, the result is the plan with
  \<open>matched = False\<close>. Removing the disabled policies from the list changes nothing.
\<close>

theorem evaluate_first_match:
  "(rejected_by event pre w = Some w1 \<and> gp_enabled p \<and> match_event event p w1 = (Inr True, w2)
      \<longrightarrow> evaluate event (pre @ p # post) w = (build_action_plan event p, w2))
   \<and> (gp_policy_id p \<noteq> [] \<and> gp_actions p \<noteq> []
      \<longrightarrow> build_action_plan event p =
            Inr \<lparr>ap_matched = True, ap_matched_policy_id = Some (gp_policy_id p),
                 ap_mode = Some (gp_mode p), ap_actions = gp_actions p,
                 ap_ttl_minutes = Some (gp_ttl_minutes p),
                 ap_target_principals = map pr_arn (sc_principals (gp_scope p))\<rparr>)
   \<and> (rejected_by event ps w = Some w1
      \<longrightarrow> evaluate event ps w =
            (Inr \<lparr>ap_matched = False, ap_matched_policy_id = None, ap_mode = None,
                  ap_actions = [], ap_ttl_minutes = None, ap_target_principals = []\<rparr>, w1))
   \<and> evaluate event (filter gp_enabled ps) w = evaluate event ps w"
proof (intro conjI impI)
  assume a: "rejected_by event pre w = Some w1 \<and> gp_enabled p
    \<and> match_event event p w1 = (Inr True, w2)"
  then have "evaluate event (pre @ p # post) w = evaluate event (p # post) w1"
    by (simp add: evaluate_append_rejected)
  with a show "evaluate event (pre @ p # post) w = (build_action_plan event p, w2)" by simp
next
  assume "gp_policy_id p \<noteq> [] \<and> gp_actions p \<noteq> []"
  then show "build_action_plan event p =
            Inr \<lparr>ap_matched = True, ap_matched_policy_id = Some (gp_policy_id p),
                 ap_mode = Some (gp_mode p), ap_actions = gp_actions p,
                 ap_ttl_minutes = Some (gp_ttl_minutes p),
                 ap_target_principals = map pr_arn (sc_principals (gp_scope p))\<rparr>"
    by (simp add: build_action_plan_ok)
next
  assume "rejected_by event ps w = Some w1"
  from evaluate_append_rejected [OF this, of "[]"]
  show "evaluate event ps w =
            (Inr \<lparr>ap_matched = False, ap_matched_policy_id = None, ap_mode = None,
                  ap_actions = [], ap_ttl_minutes = None, ap_target_principals = []\<rparr>, w1)"
    by (simp add: new_ActionPlan_def)
next
  show "evaluate event (filter gp_enabled ps) w = evaluate event ps w"
    by (rule evaluate_filter_enabled)
qed

theorem evaluate_first_match_witness:
  "rejected_by (sample_event 800)
       [policy_notify\<lparr>gp_enabled := False\<rparr>, policy_manual\<lparr>gp_match := sample_match 1000\<rparr>]
       sample_world = Some sample_world
   \<and> gp_enabled policy_manual
   \<and> match_event (sample_event 800) policy_manual sample_world = (Inr True, sample_world)
   \<and> evaluate (sample_event 800)
       ([policy_notify\<lparr>gp_enabled := False\<rparr>, policy_manual\<lparr>gp_match := sample_match 1000\<rparr>]
          @ policy_manual # [policy_notify]) sample_world
       = (build_action_plan (sample_event 800) policy_manual, sample_world)
   \<and> gp_policy_id policy_manual \<noteq> [] \<and> gp_actions policy_manual \<noteq> []
   \<and> build_action_plan (sample_event 800) policy_manual =
       Inr \<lparr>ap_matched = True, ap_matched_policy_id = Some ''ci-ec2-spike'', ap_mode = Some Manual,
            ap_actions = [\<lparr>pa_type = AttachDenyPolicy, pa_deny = Some [''ec2:RunInstances'']\<rparr>],
            ap_ttl_minutes = Some 180,
            ap_target_principals = [''arn:aws:iam::123456789012:role/ci-deployer'']\<rparr>
   \<and> rejected_by (sample_event 250) [policy_manual] sample_world = Some sample_world
   \<and> fst (evaluate (sample_event 250) [policy_manual] sample_world) =
       Inr \<lparr>ap_matched = False, ap_matched_policy_id = None, ap_mode = None,
            ap_actions = [], ap_ttl_minutes = None, ap_target_principals = []\<rparr>"
proof -
  have h1: "rejected_by (sample_event 800)
       [policy_notify\<lparr>gp_enabled := False\<rparr>, policy_manual\<lparr>gp_match := sample_match 1000\<rparr>]
       sample_world = Some sample_world
   \<and> gp_enabled policy_manual
   \<and> match_event (sample_event 800) policy_manual sample_world = (Inr True, sample_world)"
    by (simp add: sample_defs match_event_def)
  have h2: "gp_policy_id policy_manual \<noteq> [] \<and> gp_actions policy_manual \<noteq> []"
    by (simp add: sample_defs)
  have h3: "rejected_by (sample_event 250) [policy_manual] sample_world = Some sample_world"
    by (simp add: sample_defs match_event_def)
  have p: "policy_manual = \<lparr>gp_policy_id = ''ci-ec2-spike'', gp_enabled = True, gp_mode = Manual,
      gp_ttl_minutes = 180, gp_match = sample_match 500, gp_scope = sample_scope,
      gp_actions = [\<lparr>pa_type = AttachDenyPolicy, pa_deny = Some [''ec2:RunInstances'']\<rparr>],
      gp_exceptions = None\<rparr>" by (simp add: policy_manual_def)
  from evaluate_first_match [of "sample_event 800"
      "[policy_notify\<lparr>gp_enabled := False\<rparr>, policy_manual\<lparr>gp_match := sample_match 1000\<rparr>]"
      sample_world sample_world policy_manual sample_world "[policy_notify]" "[policy_manual]"]
    evaluate_first_match [of "sample_event 250" "[]" sample_world sample_world policy_manual
      sample_world "[]" "[policy_manual]"]
    h1 h2 h3
  show ?thesis by (simp add: p sample_scope_def)
qed

section \<open>Policy engine: exceptions only exclude\<close>

lemma match_event_exempted:
  assumes "gp_exceptions policy = Some exceptions"
    and "fst (is_exempted event exceptions w) = Inr True"
  shows "fst (match_event event policy w) = Inr False"
  using assms
  by (auto simp: match_event_def split: prod.splits sum.splits bool.splits option.splits)

text \<open>
  Claim C8. When the exception rules of a policy exempt the event (\<open>is_exempted\<close>
  answers \<open>True\<close>: one of its clauses applies), the matcher answers \<open>False\<close> for that
  policy, whether or not the match conditions hold, and \<open>evaluate\<close> goes on with the
  policies after it: its result is the result for the rest of the list, so a later policy
  is selected only when it matches by itself.
\<close>

theorem exempted_event_is_non_match:
  assumes "gp_exceptions policy = Some exceptions"
    and "fst (is_exempted event exceptions w) = Inr True"
  shows "fst (match_event event policy w) = Inr False
       \<and> evaluate event (policy # rest) w =
           evaluate event rest (if gp_enabled policy then snd (match_event event policy w) else w)"
proof -
  have m: "fst (match_event event policy w) = Inr False"
    using assms by (rule match_event_exempted)
  then show ?thesis by (cases "match_event event policy w") auto
qed

theorem exempted_event_is_non_match_witness:
  "gp_exceptions (policy_manual\<lparr>gp_exceptions := Some allowlisted_account\<rparr>) = Some allowlisted_account
   \<and> fst (is_exempted (sample_event 800) allowlisted_account sample_world) = Inr True
   \<and> fst (match_event (sample_event 800) policy_manual sample_world) = Inr True
   \<and> fst (match_event (sample_event 800) (policy_manual\<lparr>gp_exceptions := Some allowlisted_account\<rparr>)
           sample_world) = Inr False
   \<and> evaluate (sample_event 800)
        [policy_manual\<lparr>gp_exceptions := Some allowlisted_account\<rparr>, policy_notify] sample_world
       = evaluate (sample_event 800) [policy_notify] sample_world"
proof -
  have h1: "gp_exceptions (policy_manual\<lparr>gp_exceptions := Some allowlisted_account\<rparr>)
      = Some allowlisted_account" by simp
  have h2: "fst (is_exempted (sample_event 800) allowlisted_account sample_world) = Inr True"
    by (simp add: is_exempted_def sample_defs)
  have h3: "fst (match_event (sample_event 800) policy_manual sample_world) = Inr True"
    by (simp add: match_event_def sample_defs)
  have h4: "snd (match_event (sample_event 800)
      (policy_manual\<lparr>gp_exceptions := Some allowlisted_account\<rparr>) sample_world) = sample_world"
    by (simp add: match_event_def is_exempted_def sample_defs)
  have h5: "gp_enabled (policy_manual\<lparr>gp_exceptions := Some allowlisted_account\<rparr>)"
    by (simp add: policy_manual_def)
  from exempted_event_is_non_match [OF h1 h2, of "[policy_notify]"] h1 h2 h3 h4 h5
  show ?thesis by simp
qed

section \<open>Policy engine: two runs with the same inputs\<close>

lemma in_exempted_time_window_frame:
  "in_exempted_time_window tws w =
     (in_windows (clock w (ticks w)) tws, w\<lparr>ticks := ticks w + 1\<rparr>)"
  by (simp add: in_exempted_time_window_def utcnow_def)

lemma is_exempted_two_runs:
  assumes "clock w1 (ticks w1) = clock w2 (ticks w2)"
  shows "fst (is_exempted event x w1) = fst (is_exempted event x w2)
       \<and> (\<exists>k\<le>1. snd (is_exempted event x w1) = w1\<lparr>ticks := ticks w1 + k\<rparr>
              \<and> snd (is_exempted event x w2) = w2\<lparr>ticks := ticks w2 + k\<rparr>)"
proof -
  have z: "\<exists>k\<le>1::nat. w1 = w1\<lparr>ticks := ticks w1 + k\<rparr> \<and> w2 = w2\<lparr>ticks := ticks w2 + k\<rparr>"
    by (rule exI [of _ 0]) simp
  have s: "\<exists>k\<le>1::nat. w1\<lparr>ticks := Suc (ticks w1)\<rparr> = w1\<lparr>ticks := ticks w1 + k\<rparr>
            \<and> w2\<lparr>ticks := Suc (ticks w2)\<rparr> = w2\<lparr>ticks := ticks w2 + k\<rparr>"
    by (rule exI [of _ 1]) simp
  show ?thesis
    using assms z s
    by (simp add: is_exempted_def in_exempted_time_window_frame split: sum.splits bool.splits)
qed

lemma match_event_two_runs:
  assumes "clock w1 (ticks w1) = clock w2 (ticks w2)"
  shows "fst (match_event event p w1) = fst (match_event event p w2)
       \<and> (\<exists>k\<le>1. snd (match_event event p w1) = w1\<lparr>ticks := ticks w1 + k\<rparr>
              \<and> snd (match_event event p w2) = w2\<lparr>ticks := ticks w2 + k\<rparr>)"
proof -
  have z: "\<exists>k\<le>1::nat. w1 = w1\<lparr>ticks := ticks w1 + k\<rparr> \<and> w2 = w2\<lparr>ticks := ticks w2 + k\<rparr>"
    by (rule exI [of _ 0]) simp
  show ?thesis
  proof (cases "gp_exceptions p")
    case None
    with z show ?thesis by (simp add: match_event_def)
  next
    case (Some x)
    from is_exempted_two_runs [OF assms, of event x]
    obtain k where k: "k \<le> 1" "fst (is_exempted event x w1) = fst (is_exempted event x w2)"
      "snd (is_exempted event x w1) = w1\<lparr>ticks := ticks w1 + k\<rparr>"
      "snd (is_exempted event x w2) = w2\<lparr>ticks := ticks w2 + k\<rparr>" by blast
    then have kk: "\<exists>k\<le>1::nat. snd (is_exempted event x w1) = w1\<lparr>ticks := ticks w1 + k\<rparr>
            \<and> snd (is_exempted event x w2) = w2\<lparr>ticks := ticks w2 + k\<rparr>" by blast
    obtain r1 v1 where e1: "is_exempted event x w1 = (r1, v1)"
      by (cases "is_exempted event x w1")
    obtain r2 v2 where e2: "is_exempted event x w2 = (r2, v2)"
      by (cases "is_exempted event x w2")
    from k e1 e2 have "r1 = r2" by simp
    with Some z kk e1 e2 show ?thesis
      by (simp add: match_event_def split: sum.splits bool.splits)
  qed
qed

text \<open>
  Claim C9. \<open>evaluate\<close> reads the wall clock and nothing else of the world, and changes
  nothing: run in two worlds whose clocks return the same readings from now on (and which
  may differ in everything else), it returns the same plan or raises the same exception,
  and each world is left as it was except for the count of clock readings taken.
\<close>

theorem evaluate_deterministic:
  assumes "\<forall>n. clock w1 (ticks w1 + n) = clock w2 (ticks w2 + n)"
  shows "fst (evaluate event policies w1) = fst (evaluate event policies w2)
       \<and> (\<exists>k. snd (evaluate event policies w1) = w1\<lparr>ticks := ticks w1 + k\<rparr>
             \<and> snd (evaluate event policies w2) = w2\<lparr>ticks := ticks w2 + k\<rparr>)"
  using assms
proof (induction policies arbitrary: w1 w2)
  case Nil
  have "\<exists>k. w1 = w1\<lparr>ticks := ticks w1 + k\<rparr> \<and> w2 = w2\<lparr>ticks := ticks w2 + k\<rparr>"
    by (rule exI [of _ 0]) simp
  then show ?case by simp
next
  case (Cons p ps)
  show ?case
  proof (cases "gp_enabled p")
    case False
    with Cons.IH [OF Cons.prems] show ?thesis by simp
  next
    case True
    from Cons.prems have c0: "clock w1 (ticks w1) = clock w2 (ticks w2)"
      by (metis add.right_neutral)
    from match_event_two_runs [OF c0, of event p]
    obtain k where k: "fst (match_event event p w1) = fst (match_event event p w2)"
      "snd (match_event event p w1) = w1\<lparr>ticks := ticks w1 + k\<rparr>"
      "snd (match_event event p w2) = w2\<lparr>ticks := ticks w2 + k\<rparr>" by blast
    obtain r v1 v2 where m1: "match_event event p w1 = (r, v1)"
      and m2: "match_event event p w2 = (r, v2)"
      using k(1) by (cases "match_event event p w1", cases "match_event event p w2") auto
    from k m1 m2 have v: "v1 = w1\<lparr>ticks := ticks w1 + k\<rparr>" "v2 = w2\<lparr>ticks := ticks w2 + k\<rparr>"
      by simp_all
    have stop: "\<exists>j. v1 = w1\<lparr>ticks := ticks w1 + j\<rparr> \<and> v2 = w2\<lparr>ticks := ticks w2 + j\<rparr>"
      using v by blast
    show ?thesis
    proof (cases r)
      case (Inl e)
      with True m1 m2 stop show ?thesis by simp
    next
      case (Inr b)
      show ?thesis
      proof (cases b)
        case True
        with \<open>gp_enabled p\<close> Inr m1 m2 stop show ?thesis by simp
      next
        case False
        have "\<forall>n. clock v1 (ticks v1 + n) = clock v2 (ticks v2 + n)"
          using Cons.prems v by (simp add: add.assoc)
        from Cons.IH [OF this]
        obtain j where j: "fst (evaluate event ps v1) = fst (evaluate event ps v2)"
          "snd (evaluate event ps v1) = v1\<lparr>ticks := ticks v1 + j\<rparr>"
          "snd (evaluate event ps v2) = v2\<lparr>ticks := ticks v2 + j\<rparr>" by blast
        have "snd (evaluate event ps v1) = w1\<lparr>ticks := ticks w1 + (k + j)\<rparr>"
          "snd (evaluate event ps v2) = w2\<lparr>ticks := ticks w2 + (k + j)\<rparr>"
          using j v by (simp_all add: add.assoc)
        then have "\<exists>i. snd (evaluate event ps v1) = w1\<lparr>ticks := ticks w1 + i\<rparr>
              \<and> snd (evaluate event ps v2) = w2\<lparr>ticks := ticks w2 + i\<rparr>" by blast
        with \<open>gp_enabled p\<close> Inr False m1 m2 j(1) show ?thesis by simp
      qed
    qed
  qed
qed

theorem evaluate_deterministic_witness:
  "(\<forall>n. clock sample_world (ticks sample_world + n)
        = clock (sample_world\<lparr>clock := (\<lambda>n. 1736937000000000 + (int n - 3) * 1000), ticks := 3,
                               uuid_count := 7\<rparr>)
            (ticks (sample_world\<lparr>clock := (\<lambda>n. 1736937000000000 + (int n - 3) * 1000),
                                 ticks := 3, uuid_count := 7\<rparr>) + n))
   \<and> fst (evaluate (sample_event 800)
            [policy_manual\<lparr>gp_exceptions := Some office_hours\<rparr>, policy_notify] sample_world)
     = fst (evaluate (sample_event 800)
            [policy_manual\<lparr>gp_exceptions := Some office_hours\<rparr>, policy_notify]
            (sample_world\<lparr>clock := (\<lambda>n. 1736937000000000 + (int n - 3) * 1000), ticks := 3,
                           uuid_count := 7\<rparr>))
   \<and> snd (evaluate (sample_event 800)
            [policy_manual\<lparr>gp_exceptions := Some office_hours\<rparr>, policy_notify] sample_world)
     = sample_world\<lparr>ticks := 1\<rparr>"
proof -
  have h: "\<forall>n. clock sample_world (ticks sample_world + n)
        = clock (sample_world\<lparr>clock := (\<lambda>n. 1736937000000000 + (int n - 3) * 1000), ticks := 3,
                               uuid_count := 7\<rparr>)
            (ticks (sample_world\<lparr>clock := (\<lambda>n. 1736937000000000 + (int n - 3) * 1000),
                                 ticks := 3, uuid_count := 7\<rparr>) + n)"
    by (simp add: sample_world_def)
  have e: "snd (evaluate (sample_event 800)
            [policy_manual\<lparr>gp_exceptions := Some office_hours\<rparr>, policy_notify] sample_world)
     = sample_world\<lparr>ticks := 1\<rparr>"
    by (simp add: match_event_def is_exempted_def in_exempted_time_window_def utcnow_def
        day_abbr_def replace_hm_def us_per_day_def sample_defs)
  from evaluate_deterministic [OF h, of "sample_event 800"
      "[policy_manual\<lparr>gp_exceptions := Some office_hours\<rparr>, policy_notify]"] h e
  show ?thesis by simp
qed

section \<open>Rollback: the status guard\<close>

lemmas cloud_defs = sample_iam_def sample_notifier_def real_executor_def dry_executor_def
  cloud_world_def executed_item_def planned_item_def sample_fromisoformat_def
  sample_handler_def sample_cleanup_def sample_list_attached_def no_such_entity_def

lemmas run_defs = and_then_def pure_result_def call_def utcnow_def uuid4_def

text \<open>
  Claim C6, as amended. For an execution whose status is not \<open>Executed\<close>,
  \<open>rollback_execution\<close> answers \<open>False\<close> and leaves the record and the world as they
  are: no request is sent. For an executed record and an executor that is not in dry-run
  mode, an answer \<open>True\<close> comes with the status \<open>RolledBack\<close>. An executor in dry-run
  mode answers \<open>True\<close> for an executed record and changes nothing.
\<close>

theorem rollback_execution_guard:
  "(ae_status execution \<noteq> Executed
      \<longrightarrow> rollback_execution ex execution w = ((False, execution), w))
   \<and> (ae_status execution = Executed \<and> \<not> dry_run ex
        \<and> fst (fst (rollback_execution ex execution w))
      \<longrightarrow> ae_status (snd (fst (rollback_execution ex execution w))) = RolledBack)
   \<and> (ae_status execution = Executed \<and> dry_run ex
      \<longrightarrow> rollback_execution ex execution w = ((True, execution), w))"
  by (auto simp: rollback_execution_def utcnow_def split: prod.splits sum.splits)

text \<open>
  The claim as stated fails for an executor in dry-run mode: the rollback of an executed
  record answers \<open>True\<close> and the status stays \<open>Executed\<close>.
\<close>

theorem rollback_execution_dry_run_counterexample:
  "ae_status (executed_item ''exec-7'') = Executed
   \<and> fst (fst (rollback_execution dry_executor (executed_item ''exec-7'') (cloud_world [])))
   \<and> ae_status (snd (fst (rollback_execution dry_executor (executed_item ''exec-7'')
                            (cloud_world [])))) \<noteq> RolledBack"
  by (simp add: rollback_execution_def cloud_defs)

theorem rollback_execution_guard_witness:
  "ae_status planned_item \<noteq> Executed
   \<and> rollback_execution real_executor planned_item (cloud_world [planned_item])
       = ((False, planned_item), cloud_world [planned_item])
   \<and> ae_status (executed_item ''exec-7'') = Executed \<and> \<not> dry_run real_executor
   \<and> fst (fst (rollback_execution real_executor (executed_item ''exec-7'') (cloud_world [])))
   \<and> ae_status (snd (fst (rollback_execution real_executor (executed_item ''exec-7'')
                            (cloud_world [])))) = RolledBack
   \<and> dry_run dry_executor
   \<and> rollback_execution dry_executor (executed_item ''exec-7'') (cloud_world [])
       = ((True, executed_item ''exec-7''), cloud_world [])"
proof -
  have h1: "ae_status planned_item \<noteq> Executed" by (simp add: planned_item_def)
  have h2: "ae_status (executed_item ''exec-7'') = Executed \<and> \<not> dry_run real_executor
    \<and> fst (fst (rollback_execution real_executor (executed_item ''exec-7'') (cloud_world [])))"
    by (simp add: rollback_execution_def utcnow_def cloud_defs)
  have h3: "ae_status (executed_item ''exec-7'') = Executed \<and> dry_run dry_executor"
    by (simp add: cloud_defs)
  from rollback_execution_guard [of planned_item real_executor "cloud_world [planned_item]"]
    rollback_execution_guard [of "executed_item ''exec-7''" real_executor "cloud_world []"]
    rollback_execution_guard [of "executed_item ''exec-7''" dry_executor "cloud_world []"]
    h1 h2 h3
  show ?thesis by simp
qed

section \<open>Execution of a plan: one record per pair, failures stay local\<close>

lemma execute_single_action_returns:
  assumes "valid_action a"
  shows "\<exists>x. fst (execute_single_action ex a t pid eid by ttl w) = Inr x
           \<and> ae_action x = action_type_str (pa_type a) \<and> ae_target x = t
           \<and> (ae_status x = Executed \<or> ae_status x = Failed)"
  using assms
  by (cases "pa_type a")
     (auto simp: execute_single_action_def valid_action_def utcnow_def uuid4_def Let_def
           split: prod.splits sum.splits option.splits)

lemma execute_for_targets_returns:
  assumes "valid_action a"
  shows "\<exists>xs. fst (execute_for_targets ex a targets pid eid by ttl w) = Inr xs
           \<and> map (\<lambda>x. (ae_action x, ae_target x)) xs
               = map (\<lambda>t. (action_type_str (pa_type a), t)) targets
           \<and> list_all (\<lambda>x. ae_status x = Executed \<or> ae_status x = Failed) xs"
proof (induction targets arbitrary: w)
  case Nil
  show ?case by simp
next
  case (Cons t targets)
  from execute_single_action_returns [OF assms, of ex t pid eid "by" ttl w]
  obtain x w' where x: "execute_single_action ex a t pid eid by ttl w = (Inr x, w')"
    "ae_action x = action_type_str (pa_type a)" "ae_target x = t"
    "ae_status x = Executed \<or> ae_status x = Failed"
    by (cases "execute_single_action ex a t pid eid by ttl w") auto
  from Cons.IH [of w']
  obtain xs w'' where xs: "execute_for_targets ex a targets pid eid by ttl w' = (Inr xs, w'')"
    "map (\<lambda>x. (ae_action x, ae_target x)) xs = map (\<lambda>t. (action_type_str (pa_type a), t)) targets"
    "list_all (\<lambda>x. ae_status x = Executed \<or> ae_status x = Failed) xs"
    by (cases "execute_for_targets ex a targets pid eid by ttl w'") auto
  from x xs show ?case by simp
qed

lemma execute_for_actions_returns:
  assumes "list_all valid_action actions"
  shows "\<exists>xs. fst (execute_for_actions ex actions targets pid eid by ttl w) = Inr xs
           \<and> map (\<lambda>x. (ae_action x, ae_target x)) xs
               = map (\<lambda>(a, t). (action_type_str (pa_type a), t)) (List.product actions targets)
           \<and> list_all (\<lambda>x. ae_status x = Executed \<or> ae_status x = Failed) xs"
  using assms
proof (induction actions arbitrary: w)
  case Nil
  show ?case by simp
next
  case (Cons a actions)
  then have va: "valid_action a" and rest: "list_all valid_action actions" by simp_all
  from execute_for_targets_returns [OF va, of ex targets pid eid "by" ttl w]
  obtain xs w' where xs: "execute_for_targets ex a targets pid eid by ttl w = (Inr xs, w')"
    "map (\<lambda>x. (ae_action x, ae_target x)) xs = map (\<lambda>t. (action_type_str (pa_type a), t)) targets"
    "list_all (\<lambda>x. ae_status x = Executed \<or> ae_status x = Failed) xs"
    by (cases "execute_for_targets ex a targets pid eid by ttl w") auto
  from Cons.IH [OF rest, of w']
  obtain ys w'' where ys: "execute_for_actions ex actions targets pid eid by ttl w' = (Inr ys, w'')"
    "map (\<lambda>x. (ae_action x, ae_target x)) ys
       = map (\<lambda>(a, t). (action_type_str (pa_type a), t)) (List.product actions targets)"
    "list_all (\<lambda>x. ae_status x = Executed \<or> ae_status x = Failed) ys"
    by (cases "execute_for_actions ex actions targets pid eid by ttl w'") auto
  from xs ys show ?case by (simp add: comp_def)
qed

lemma execute_single_action_failure:
  assumes "\<not> dry_run ex" and "pa_type a = AttachDenyPolicy" and "some_list (pa_deny a) \<noteq> []"
    and "fst (attach_deny_policy (iam ex) t (some_list (pa_deny a)) pid (snd (uuid4 w))) = Inl e"
  shows "fst (execute_single_action ex a t pid eid by ttl w) =
           Inr \<lparr>ae_execution_id = ''exec-'' @ fst (uuid4 w), ae_policy_id = pid, ae_event_id = eid,
                ae_status = Failed, ae_executed_at = None, ae_executed_by = by,
                ae_action = ''attach_deny_policy'', ae_target = t,
                ae_diff = [(''error'', JStr (str_exn e))], ae_ttl_expires_at = None,
                ae_rolled_back_at = None\<rparr>"
  using assms
  by (auto simp: execute_single_action_def Let_def split: prod.splits sum.splits)

text \<open>
  Claim C7. For a matched plan with a policy id and valid actions,
  \<open>execute_action_plan\<close> returns (it does not raise) one execution per pair of an action
  and a target principal, in the order of the two loops, actions outside and targets
  inside, and every execution is either executed or failed, whatever the IAM client does.
  When the attachment for a pair raises \<open>e\<close>, the execution of that pair is returned
  with the status \<open>Failed\<close> and the diff \<open>{"error": str(e)}\<close>; nothing is raised, so the
  loops go on with the remaining pairs.
\<close>

theorem execute_action_plan_isolates_failures:
  "(ap_matched plan \<and> some_list (ap_matched_policy_id plan) \<noteq> [] \<and> ap_actions plan \<noteq> []
      \<and> list_all valid_action (ap_actions plan)
    \<longrightarrow> (\<exists>xs. fst (execute_action_plan ex plan event_id executed_by w) = Inr xs
           \<and> map (\<lambda>x. (ae_action x, ae_target x)) xs
               = map (\<lambda>(a, t). (action_type_str (pa_type a), t))
                   (List.product (ap_actions plan) (ap_target_principals plan))
           \<and> list_all (\<lambda>x. ae_status x = Executed \<or> ae_status x = Failed) xs))
   \<and> (\<not> dry_run ex \<and> pa_type a = AttachDenyPolicy \<and> some_list (pa_deny a) \<noteq> []
      \<and> fst (attach_deny_policy (iam ex) t (some_list (pa_deny a)) pid (snd (uuid4 w))) = Inl e
    \<longrightarrow> fst (execute_single_action ex a t pid eid by ttl w) =
           Inr \<lparr>ae_execution_id = ''exec-'' @ fst (uuid4 w), ae_policy_id = pid, ae_event_id = eid,
                ae_status = Failed, ae_executed_at = None, ae_executed_by = by,
                ae_action = ''attach_deny_policy'', ae_target = t,
                ae_diff = [(''error'', JStr (str_exn e))], ae_ttl_expires_at = None,
                ae_rolled_back_at = None\<rparr>)"
proof (intro conjI impI)
  assume a: "ap_matched plan \<and> some_list (ap_matched_policy_id plan) \<noteq> [] \<and> ap_actions plan \<noteq> []
      \<and> list_all valid_action (ap_actions plan)"
  then have v: "list_all valid_action (ap_actions plan)" by simp
  from a execute_for_actions_returns [OF v, of ex "ap_target_principals plan"
      "the (ap_matched_policy_id plan)" event_id executed_by "ap_ttl_minutes plan" w]
  show "\<exists>xs. fst (execute_action_plan ex plan event_id executed_by w) = Inr xs
           \<and> map (\<lambda>x. (ae_action x, ae_target x)) xs
               = map (\<lambda>(a, t). (action_type_str (pa_type a), t))
                   (List.product (ap_actions plan) (ap_target_principals plan))
           \<and> list_all (\<lambda>x. ae_status x = Executed \<or> ae_status x = Failed) xs"
    by (simp add: execute_action_plan_def)
next
  assume "\<not> dry_run ex \<and> pa_type a = AttachDenyPolicy \<and> some_list (pa_deny a) \<noteq> []
      \<and> fst (attach_deny_policy (iam ex) t (some_list (pa_deny a)) pid (snd (uuid4 w))) = Inl e"
  then show "fst (execute_single_action ex a t pid eid by ttl w) =
           Inr \<lparr>ae_execution_id = ''exec-'' @ fst (uuid4 w), ae_policy_id = pid, ae_event_id = eid,
                ae_status = Failed, ae_executed_at = None, ae_executed_by = by,
                ae_action = ''attach_deny_policy'', ae_target = t,
                ae_diff = [(''error'', JStr (str_exn e))], ae_ttl_expires_at = None,
                ae_rolled_back_at = None\<rparr>"
    by (simp add: execute_single_action_failure)
qed

theorem execute_action_plan_isolates_failures_witness:
  "ap_matched two_target_plan \<and> some_list (ap_matched_policy_id two_target_plan) \<noteq> []
   \<and> ap_actions two_target_plan \<noteq> [] \<and> list_all valid_action (ap_actions two_target_plan)
   \<and> (\<exists>xs. fst (execute_action_plan real_executor two_target_plan ''evt-abc123'' ''system:auto''
                   (cloud_world [])) = Inr xs
         \<and> map (\<lambda>x. (ae_action x, ae_target x)) xs
             = [(''attach_deny_policy'', ''arn:aws:iam::123456789012:group/admins''),
                (''attach_deny_policy'', ''arn:aws:iam::123456789012:role/ci-deployer'')]
         \<and> map ae_status xs = [Failed, Executed])
   \<and> \<not> dry_run real_executor
   \<and> fst (attach_deny_policy (iam real_executor) ''arn:aws:iam::123456789012:group/admins''
            [''ec2:RunInstances''] ''ci-ec2-spike'' (snd (uuid4 (cloud_world []))))
       = Inl (ValueError ''Unsupported principal type: group'')
   \<and> fst (execute_single_action real_executor
            \<lparr>pa_type = AttachDenyPolicy, pa_deny = Some [''ec2:RunInstances'']\<rparr>
            ''arn:aws:iam::123456789012:group/admins'' ''ci-ec2-spike'' ''evt-abc123''
            ''system:auto'' (Some 180) (cloud_world []))
       = Inr \<lparr>ae_execution_id = ''exec-00000000-0000-4000-8000-000000000000'',
              ae_policy_id = ''ci-ec2-spike'', ae_event_id = ''evt-abc123'',
              ae_status = Failed, ae_executed_at = None, ae_executed_by = ''system:auto'',
              ae_action = ''attach_deny_policy'',
              ae_target = ''arn:aws:iam::123456789012:group/admins'',
              ae_diff = [(''error'', JStr ''Unsupported principal type: group'')],
              ae_ttl_expires_at = None, ae_rolled_back_at = None\<rparr>"
proof -
  have h1: "ap_matched two_target_plan \<and> some_list (ap_matched_policy_id two_target_plan) \<noteq> []
   \<and> ap_actions two_target_plan \<noteq> [] \<and> list_all valid_action (ap_actions two_target_plan)"
    by (simp add: two_target_plan_def valid_action_def)
  have h2: "\<not> dry_run real_executor \<and> pa_type \<lparr>pa_type = AttachDenyPolicy, pa_deny = Some [''ec2:RunInstances'']\<rparr> = AttachDenyPolicy
      \<and> some_list (pa_deny \<lparr>pa_type = AttachDenyPolicy, pa_deny = Some [''ec2:RunInstances'']\<rparr>) \<noteq> []
      \<and> fst (attach_deny_policy (iam real_executor) ''arn:aws:iam::123456789012:group/admins''
            (some_list (pa_deny \<lparr>pa_type = AttachDenyPolicy, pa_deny = Some [''ec2:RunInstances'']\<rparr>)) ''ci-ec2-spike'' (snd (uuid4 (cloud_world []))))
       = Inl (ValueError ''Unsupported principal type: group'')"
    by (simp add: attach_deny_policy_def parse_principal_arn_def run_defs cloud_defs)
  have u: "fst (uuid4 (cloud_world [])) = ''00000000-0000-4000-8000-000000000000''"
    by (simp add: uuid4_def cloud_world_def)
  have st: "\<exists>xs. fst (execute_action_plan real_executor two_target_plan ''evt-abc123''
                   ''system:auto'' (cloud_world [])) = Inr xs
      \<and> map ae_status xs = [Failed, Executed]"
    by (simp add: execute_action_plan_def execute_single_action_def attach_deny_policy_def
        find_existing_policy_def list_attached_policies_def parse_principal_arn_def
        two_target_plan_def run_defs cloud_defs)
  note t = execute_action_plan_isolates_failures [of two_target_plan real_executor
      "''evt-abc123''" "''system:auto''" "cloud_world []"
      "\<lparr>pa_type = AttachDenyPolicy, pa_deny = Some [''ec2:RunInstances'']\<rparr>"
      "''arn:aws:iam::123456789012:group/admins''" "''ci-ec2-spike''"
      "ValueError ''Unsupported principal type: group''" "''evt-abc123''" "''system:auto''"
      "Some 180"]
  from t [THEN conjunct1, THEN mp, OF h1]
  obtain xs where xs: "fst (execute_action_plan real_executor two_target_plan
      ''evt-abc123'' ''system:auto'' (cloud_world [])) = Inr xs"
    "map (\<lambda>x. (ae_action x, ae_target x)) xs
       = map (\<lambda>(a, t). (action_type_str (pa_type a), t))
           (List.product (ap_actions two_target_plan) (ap_target_principals two_target_plan))"
    by (elim exE conjE) (rule that, assumption+)
  from st obtain ys where ys: "fst (execute_action_plan real_executor two_target_plan
      ''evt-abc123'' ''system:auto'' (cloud_world [])) = Inr ys"
    "map ae_status ys = [Failed, Executed]"
    by (elim exE conjE) (rule that, assumption+)
  from xs(1) ys(1) have "xs = ys" by simp
  with ys(2) have s: "map ae_status xs = [Failed, Executed]" by simp
  have p: "map (\<lambda>x. (ae_action x, ae_target x)) xs
             = [(''attach_deny_policy'', ''arn:aws:iam::123456789012:group/admins''),
                (''attach_deny_policy'', ''arn:aws:iam::123456789012:role/ci-deployer'')]"
    using xs(2) by (simp add: two_target_plan_def)
  from xs(1) p s have ex: "\<exists>xs. fst (execute_action_plan real_executor two_target_plan
        ''evt-abc123'' ''system:auto'' (cloud_world [])) = Inr xs
      \<and> map (\<lambda>x. (ae_action x, ae_target x)) xs
          = [(''attach_deny_policy'', ''arn:aws:iam::123456789012:group/admins''),
             (''attach_deny_policy'', ''arn:aws:iam::123456789012:role/ci-deployer'')]
      \<and> map ae_status xs = [Failed, Executed]"
    by (intro exI [of _ xs] conjI)
  from t [THEN conjunct2, THEN mp, OF h2] u have f: "fst (execute_single_action real_executor
            \<lparr>pa_type = AttachDenyPolicy, pa_deny = Some [''ec2:RunInstances'']\<rparr>
            ''arn:aws:iam::123456789012:group/admins'' ''ci-ec2-spike'' ''evt-abc123''
            ''system:auto'' (Some 180) (cloud_world []))
       = Inr \<lparr>ae_execution_id = ''exec-00000000-0000-4000-8000-000000000000'',
              ae_policy_id = ''ci-ec2-spike'', ae_event_id = ''evt-abc123'',
              ae_status = Failed, ae_executed_at = None, ae_executed_by = ''system:auto'',
              ae_action = ''attach_deny_policy'',
              ae_target = ''arn:aws:iam::123456789012:group/admins'',
              ae_diff = [(''error'', JStr ''Unsupported principal type: group'')],
              ae_ttl_expires_at = None, ae_rolled_back_at = None\<rparr>"
    by simp
  from h1 h2 ex f show ?thesis by simp
qed

section \<open>TTL cleanup: the counters\<close>

lemma ttl_rollback_execution_result:
  "fst (ttl_rollback_execution h x w) = Inr ''rolled_back''
   \<or> fst (ttl_rollback_execution h x w) = Inr ''skipped''
   \<or> fst (ttl_rollback_execution h x w) = Inr ''failed''"
  by (simp add: ttl_rollback_execution_def record_rollback_error_def
      split: prod.splits sum.splits bool.splits)

lemma cleanup_loop_counts:
  "cleanup_loop h xs (a, b, c, errs) w = ((a', b', c', errs'), w')
   \<Longrightarrow> a' + b' + c' = a + b + c + length xs"
proof (induction xs arbitrary: a b c errs w)
  case Nil
  then show ?case by simp
next
  case (Cons x xs)
  obtain r w1 where step: "ttl_rollback_execution h x w = (r, w1)"
    by (cases "ttl_rollback_execution h x w")
  from ttl_rollback_execution_result [of h x w] step
  consider "r = Inr ''rolled_back''" | "r = Inr ''skipped''" | "r = Inr ''failed''" by auto
  then show ?case
  proof cases
    case 1
    with Cons.prems step have "cleanup_loop h xs (a + 1, b, c, errs) w1 = ((a', b', c', errs'), w')"
      by simp
    from Cons.IH [OF this] show ?thesis by simp
  next
    case 2
    with Cons.prems step have "cleanup_loop h xs (a, b, c + 1, errs) w1 = ((a', b', c', errs'), w')"
      by simp
    from Cons.IH [OF this] show ?thesis by simp
  next
    case 3
    with Cons.prems step have "cleanup_loop h xs (a, b + 1, c, errs) w1 = ((a', b', c', errs'), w')"
      by simp
    from Cons.IH [OF this] show ?thesis by simp
  qed
qed

lemma batch_length:
  "0 \<le> n \<Longrightarrow> int (length (if int (length xs) > n then slice_to n xs else xs)) \<le> n"
  by (simp add: slice_to_def)

text \<open>
  Claim C10. In the result of \<open>cleanup_expired_executions\<close> the three outcome counters
  add up to \<open>total_found\<close>: every candidate of the batch is counted once, as rolled
  back, failed or skipped (when the query raises, all four are 0). And \<open>total_found\<close>
  is the length of the batch after the cap, so for a batch size that is not negative it
  never exceeds the batch size.
\<close>

theorem cleanup_counts:
  "rolled_back (fst (cleanup_expired_executions h w)) + failed (fst (cleanup_expired_executions h w))
     + skipped (fst (cleanup_expired_executions h w))
     = total_found (fst (cleanup_expired_executions h w))
   \<and> (0 \<le> batch_size h \<longrightarrow> int (total_found (fst (cleanup_expired_executions h w))) \<le> batch_size h)"
proof -
  obtain now w1 where u: "utcnow w = (now, w1)" by (cases "utcnow w")
  obtain q w2 where q: "query_expired_executions now w1 = (q, w2)"
    by (cases "query_expired_executions now w1")
  show ?thesis
  proof (cases q)
    case (Inl e)
    with u q show ?thesis by (simp add: cleanup_expired_executions_def)
  next
    case (Inr expired)
    show ?thesis
    proof (cases "expired = []")
      case True
      with u q Inr show ?thesis by (simp add: cleanup_expired_executions_def)
    next
      case False
      define batch where
        "batch = (if int (length expired) > batch_size h then slice_to (batch_size h) expired
                  else expired)"
      obtain a b c errs w3 where l: "cleanup_loop h batch (0, 0, 0, []) w2 = ((a, b, c, errs), w3)"
        by (cases "cleanup_loop h batch (0, 0, 0, []) w2") auto
      from cleanup_loop_counts [OF l] have s: "a + b + c = length batch" by simp
      have r: "fst (cleanup_expired_executions h w)
               = \<lparr>total_found = length batch, rolled_back = a, failed = b, skipped = c,
                  errors = errs\<rparr>"
        using u q Inr False l by (simp add: cleanup_expired_executions_def batch_def)
      have "0 \<le> batch_size h \<longrightarrow> int (length batch) \<le> batch_size h"
        unfolding batch_def by (rule impI) (rule batch_length)
      with r s show ?thesis by simp
    qed
  qed
qed

theorem cleanup_counts_witness:
  "fst (cleanup_expired_executions (sample_cleanup 2)
          (cloud_world [executed_item ''exec-1'', executed_item ''exec-2'', planned_item\<lparr>ae_execution_id := ''exec-4''\<rparr>, executed_item ''exec-3'']))
    = \<lparr>total_found = 2, rolled_back = 2, failed = 0, skipped = 0, errors = []\<rparr>
   \<and> 0 \<le> batch_size (sample_cleanup 2)
   \<and> int (total_found (fst (cleanup_expired_executions (sample_cleanup 2)
          (cloud_world [executed_item ''exec-1'', executed_item ''exec-2'', planned_item\<lparr>ae_execution_id := ''exec-4''\<rparr>, executed_item ''exec-3''])))) \<le> batch_size (sample_cleanup 2)"
proof -
  have e: "fst (cleanup_expired_executions (sample_cleanup 2)
          (cloud_world [executed_item ''exec-1'', executed_item ''exec-2'', planned_item\<lparr>ae_execution_id := ''exec-4''\<rparr>, executed_item ''exec-3'']))
    = \<lparr>total_found = 2, rolled_back = 2, failed = 0, skipped = 0, errors = []\<rparr>"
    by (simp add: cleanup_expired_executions_def query_expired_executions_def
        table_scan_expired_def db_request_def is_expired_item_def slice_to_def
        ttl_rollback_execution_def rollback_execution_def update_execution_def
        table_put_item_def run_defs cloud_defs)
  have h: "0 \<le> batch_size (sample_cleanup 2)" by (simp add: sample_cleanup_def)
  from cleanup_counts [of "sample_cleanup 2" "cloud_world [executed_item ''exec-1'', executed_item ''exec-2'', planned_item\<lparr>ae_execution_id := ''exec-4''\<rparr>, executed_item ''exec-3'']"] e h
  show ?thesis by simp
qed

section \<open>TTL cleanup: the second run\<close>

lemma same_ledger_refl: "same_ledger w w"
  by (simp add: same_ledger_def)

lemma same_ledger_trans: "same_ledger w w1 \<Longrightarrow> same_ledger w1 w2 \<Longrightarrow> same_ledger w w2"
  by (simp add: same_ledger_def)

lemma preserves_pure: "preserves (pure_result r)"
  by (simp add: preserves_def pure_result_def same_ledger_def)

lemma preserves_call: "preserves (call f)"
  by (simp add: preserves_def call_def same_ledger_def split: prod.splits)

lemma call_same_ledger: "same_ledger w (snd (call f w))"
  by (simp add: call_def same_ledger_def split: prod.splits)

lemma preserves_and_then:
  assumes "preserves m" and "\<And>a. preserves (f a)"
  shows "preserves (and_then m f)"
proof -
  have "same_ledger w (snd (and_then m f w))" for w
  proof (cases "m w")
    case (Pair r w')
    from assms(1) Pair have 1: "same_ledger w w'" by (auto simp: preserves_def dest: spec [of _ w])
    show ?thesis
    proof (cases r)
      case (Inl e)
      with Pair 1 show ?thesis by (simp add: and_then_def)
    next
      case (Inr a)
      from assms(2) [of a] have "same_ledger w' (snd (f a w'))" by (simp add: preserves_def)
      with 1 Pair Inr show ?thesis by (auto simp: and_then_def intro: same_ledger_trans)
    qed
  qed
  then show ?thesis by (simp add: preserves_def)
qed

lemma preserves_case_prod: "(\<And>a b. preserves (g a b)) \<Longrightarrow> preserves (case p of (a, b) \<Rightarrow> g a b)"
  by (cases p) simp

lemma preserves_delete_if_unattached: "preserves (delete_if_unattached client arn)"
proof -
  have inner: "preserves (and_then (pure_result (str_param arn))
             (\<lambda>a. and_then (call (iam_list_entities_for_policy client a))
                (\<lambda>(roles, users, groups).
                   if length roles + length users + length groups = 0
                   then call (iam_delete_policy client a)
                   else pure_result (Inr ()))))"
    by (intro preserves_and_then preserves_pure preserves_call)
       (auto simp: preserves_pure preserves_call split: prod.splits)
  have "snd (delete_if_unattached client arn w)
      = snd (and_then (pure_result (str_param arn))
             (\<lambda>a. and_then (call (iam_list_entities_for_policy client a))
                (\<lambda>(roles, users, groups).
                   if length roles + length users + length groups = 0
                   then call (iam_delete_policy client a)
                   else pure_result (Inr ()))) w)" for w
    by (simp add: delete_if_unattached_def split: prod.splits sum.splits exn.splits)
  with inner show ?thesis by (simp add: preserves_def)
qed

lemma preserves_rollback_attach_deny_policy:
  "preserves (rollback_attach_deny_policy client execution)"
  unfolding rollback_attach_deny_policy_def
  by (auto intro!: preserves_and_then preserves_pure preserves_call
        preserves_delete_if_unattached)

lemma utcnow_same_ledger: "same_ledger w (snd (utcnow w))"
  by (simp add: utcnow_def same_ledger_def)

lemma rollback_execution_frame:
  assumes "rollback_execution ex x w = ((b, x'), w')"
  shows "same_ledger w w' \<and> ae_execution_id x' = ae_execution_id x
       \<and> ae_ttl_expires_at x' = ae_ttl_expires_at x"
proof -
  from preserves_rollback_attach_deny_policy [of "iam ex" x]
  have p: "same_ledger w (snd (rollback_attach_deny_policy (iam ex) x w))"
    by (simp add: preserves_def)
  obtain r w1 where r: "rollback_attach_deny_policy (iam ex) x w = (r, w1)"
    by (cases "rollback_attach_deny_policy (iam ex) x w")
  with p have p1: "same_ledger w w1" by simp
  have p2: "same_ledger w (w1\<lparr>ticks := Suc (ticks w1)\<rparr>)" "same_ledger w (w\<lparr>ticks := Suc (ticks w)\<rparr>)"
    using p1 by (simp_all add: same_ledger_def)
  from assms r p1 p2 show ?thesis
    by (auto simp: rollback_execution_def utcnow_def same_ledger_refl
          split: if_splits sum.splits)
qed

lemma update_execution_no_fault:
  assumes "db_faults w (db_calls w) = None"
  shows "update_execution x w
         = (Inr True, w\<lparr>db_calls := Suc (db_calls w), table := put_item_in x (table w)\<rparr>)"
  using assms by (simp add: update_execution_def table_put_item_def db_request_def)

lemma ttl_rollback_execution_step:
  assumes nf: "\<forall>n. db_faults w n = None" and ex: "ae_status x = Executed"
  shows "\<exists>x'. table (snd (ttl_rollback_execution h x w)) = put_item_in x' (table w)
            \<and> ae_execution_id x' = ae_execution_id x
            \<and> ae_ttl_expires_at x' = ae_ttl_expires_at x
            \<and> ae_status x' \<noteq> Executed
            \<and> db_faults (snd (ttl_rollback_execution h x w)) = db_faults w
            \<and> clock (snd (ttl_rollback_execution h x w)) = clock w"
proof -
  obtain b x1 w1 where rb: "rollback_execution (th_executor h) x w = ((b, x1), w1)"
    by (cases "rollback_execution (th_executor h) x w") auto
  from rollback_execution_frame [OF rb]
  have f: "table w1 = table w" "db_faults w1 = db_faults w" "clock w1 = clock w"
    "ae_execution_id x1 = ae_execution_id x" "ae_ttl_expires_at x1 = ae_ttl_expires_at x"
    by (simp_all add: same_ledger_def)
  show ?thesis
  proof (cases b)
    case True
    define x2 where "x2 = x1\<lparr>ae_status := RolledBack, ae_rolled_back_at := Some (clock w1 (ticks w1))\<rparr>"
    define w2 where "w2 = w1\<lparr>ticks := Suc (ticks w1)\<rparr>"
    have nf2: "db_faults w2 (db_calls w2) = None" using nf f by (simp add: w2_def)
    have "snd (ttl_rollback_execution h x w)
          = snd (call (send_rollback_confirmation (th_notifier h) x2)
                   (w2\<lparr>db_calls := Suc (db_calls w2), table := put_item_in x2 (table w2)\<rparr>))"
      using ex rb True update_execution_no_fault [OF nf2, of x2]
      by (simp add: ttl_rollback_execution_def utcnow_def x2_def w2_def split: prod.splits)
    moreover have "same_ledger (w2\<lparr>db_calls := Suc (db_calls w2), table := put_item_in x2 (table w2)\<rparr>)
        (snd (call (send_rollback_confirmation (th_notifier h) x2)
                   (w2\<lparr>db_calls := Suc (db_calls w2), table := put_item_in x2 (table w2)\<rparr>)))"
      by (rule call_same_ledger)
    ultimately have "table (snd (ttl_rollback_execution h x w)) = put_item_in x2 (table w)"
      "db_faults (snd (ttl_rollback_execution h x w)) = db_faults w"
      "clock (snd (ttl_rollback_execution h x w)) = clock w"
      using f by (simp_all add: same_ledger_def w2_def)
    moreover have "ae_execution_id x2 = ae_execution_id x" "ae_ttl_expires_at x2 = ae_ttl_expires_at x"
      "ae_status x2 \<noteq> Executed" using f by (simp_all add: x2_def)
    ultimately show ?thesis by blast
  next
    case False
    define x2 where "x2 = x1\<lparr>ae_status := Failed,
        ae_diff := dict_set (ae_diff x1) ''rollback_error'' (JStr ''Rollback returned False'')\<rparr>"
    have nf1: "db_faults w1 (db_calls w1) = None" using nf f by simp
    have "snd (ttl_rollback_execution h x w)
          = w1\<lparr>db_calls := Suc (db_calls w1), table := put_item_in x2 (table w1)\<rparr>"
      using ex rb False update_execution_no_fault [OF nf1, of x2]
      by (simp add: ttl_rollback_execution_def x2_def)
    then have "table (snd (ttl_rollback_execution h x w)) = put_item_in x2 (table w)"
      "db_faults (snd (ttl_rollback_execution h x w)) = db_faults w"
      "clock (snd (ttl_rollback_execution h x w)) = clock w"
      using f by simp_all
    moreover have "ae_execution_id x2 = ae_execution_id x" "ae_ttl_expires_at x2 = ae_ttl_expires_at x"
      "ae_status x2 \<noteq> Executed" using f by (simp_all add: x2_def)
    ultimately show ?thesis by blast
  qed
qed

lemma set_put_item_in: "set (put_item_in x t) \<subseteq> insert x (set t)"
  by (induction t) auto

lemma map_id_put_item_in:
  "ae_execution_id x \<in> ae_execution_id ` set t
   \<Longrightarrow> map ae_execution_id (put_item_in x t) = map ae_execution_id t"
  by (induction t) auto

lemma put_item_in_same_id:
  "distinct (map ae_execution_id t) \<Longrightarrow> ae_execution_id x \<in> ae_execution_id ` set t
   \<Longrightarrow> y \<in> set (put_item_in x t) \<Longrightarrow> ae_execution_id y = ae_execution_id x \<Longrightarrow> y = x"
proof (induction t)
  case Nil
  then show ?case by simp
next
  case (Cons a t)
  show ?case
  proof (cases "ae_execution_id a = ae_execution_id x")
    case True
    with Cons.prems show ?thesis by (auto simp: image_iff)
  next
    case False
    with Cons show ?thesis by auto
  qed
qed

lemma carried_ids: "list_all2 carried t0 t \<Longrightarrow> map ae_execution_id t = map ae_execution_id t0"
  by (induction rule: list_all2_induct) (simp_all add: carried_def)

lemma carried_put_item_in:
  assumes "list_all2 carried t0 t" and "distinct (map ae_execution_id t0)" and "x \<in> set t0"
    and "ae_execution_id x' = ae_execution_id x" and "ae_ttl_expires_at x' = ae_ttl_expires_at x"
    and "ae_status x' \<noteq> Executed"
  shows "list_all2 carried t0 (put_item_in x' t)"
  using assms(1,2,3)
proof (induction rule: list_all2_induct)
  case Nil
  then show ?case by simp
next
  case (Cons y0 t0 y t)
  from Cons.hyps(1) have idy: "ae_execution_id y = ae_execution_id y0" by (simp add: carried_def)
  show ?case
  proof (cases "ae_execution_id y = ae_execution_id x'")
    case True
    with idy assms(4) have "ae_execution_id y0 = ae_execution_id x" by simp
    with Cons.prems have "x = y0" by (auto simp: image_iff)
    with assms(4,5,6) have "carried y0 x'" by (simp add: carried_def)
    with True Cons.hyps(2) show ?thesis by simp
  next
    case False
    with idy assms(4) have "x \<noteq> y0" by auto
    with Cons.prems have "x \<in> set t0" "distinct (map ae_execution_id t0)" by auto
    from Cons.IH [OF this(2,1)] False Cons.hyps(1) show ?thesis by simp
  qed
qed

lemma cleanup_loop_settles:
  assumes "\<forall>n. db_faults w n = None" and "distinct (map ae_execution_id t0)"
    and "set xs \<subseteq> set t0" and "\<forall>x\<in>set xs. ae_status x = Executed"
    and "list_all2 carried t0 (table w)"
    and "\<forall>y\<in>set (table w). ae_execution_id y \<in> S \<longrightarrow> ae_status y \<noteq> Executed"
  shows "list_all2 carried t0 (table (snd (cleanup_loop h xs c w)))
       \<and> (\<forall>y\<in>set (table (snd (cleanup_loop h xs c w))).
            ae_execution_id y \<in> S \<union> ae_execution_id ` set xs \<longrightarrow> ae_status y \<noteq> Executed)
       \<and> db_faults (snd (cleanup_loop h xs c w)) = db_faults w
       \<and> clock (snd (cleanup_loop h xs c w)) = clock w"
  using assms
proof (induction xs arbitrary: w c S)
  case Nil
  then show ?case by simp
next
  case (Cons x xs)
  obtain r w1 where step: "ttl_rollback_execution h x w = (r, w1)"
    by (cases "ttl_rollback_execution h x w")
  from Cons.prems have xe: "ae_status x = Executed" and xt: "x \<in> set t0" by auto
  from ttl_rollback_execution_step [OF Cons.prems(1) xe, of h] step
  obtain x' where x': "table w1 = put_item_in x' (table w)"
    "ae_execution_id x' = ae_execution_id x" "ae_ttl_expires_at x' = ae_ttl_expires_at x"
    "ae_status x' \<noteq> Executed" "db_faults w1 = db_faults w" "clock w1 = clock w"
    by auto
  have ids: "map ae_execution_id (table w) = map ae_execution_id t0"
    using Cons.prems(5) by (rule carried_ids)
  have c1: "list_all2 carried t0 (table w1)"
    unfolding x'(1) using Cons.prems(5,2) xt x'(2,3,4) by (rule carried_put_item_in)
  have dw: "distinct (map ae_execution_id (table w))" using ids Cons.prems(2) by simp
  have inw: "ae_execution_id x' \<in> ae_execution_id ` set (table w)"
  proof -
    from xt have "ae_execution_id x \<in> set (map ae_execution_id t0)" by simp
    with ids x'(2) show ?thesis by (metis list.set_map)
  qed
  have s1: "\<forall>y\<in>set (table w1). ae_execution_id y \<in> insert (ae_execution_id x) S
              \<longrightarrow> ae_status y \<noteq> Executed"
  proof (intro ballI impI)
    fix y assume y: "y \<in> set (table w1)" and iy: "ae_execution_id y \<in> insert (ae_execution_id x) S"
    show "ae_status y \<noteq> Executed"
    proof (cases "ae_execution_id y = ae_execution_id x")
      case True
      with put_item_in_same_id [OF dw inw] y x'(1,2) have "y = x'" by simp
      with x'(4) show ?thesis by simp
    next
      case False
      with iy have "ae_execution_id y \<in> S" by simp
      moreover from y x'(1) set_put_item_in [of x' "table w"] have "y = x' \<or> y \<in> set (table w)"
        by auto
      ultimately show ?thesis using x'(4) Cons.prems(6) by auto
    qed
  qed
  have nf1: "\<forall>n. db_faults w1 n = None" using Cons.prems(1) x'(5) by simp
  have sub: "set xs \<subseteq> set t0" "\<forall>x\<in>set xs. ae_status x = Executed" using Cons.prems by auto
  obtain c' where loop: "cleanup_loop h (x # xs) c w = cleanup_loop h xs c' w1"
    using step by (cases c; cases r) auto
  from Cons.IH [OF nf1 Cons.prems(2) sub c1 s1, of c'] loop x'(5,6)
  show ?case by simp
qed

lemma query_expired_no_fault:
  assumes "db_faults w (db_calls w) = None"
  shows "query_expired_executions now w
         = (Inr (filter (is_expired_item now) (table w)), w\<lparr>db_calls := Suc (db_calls w)\<rparr>)"
  using assms
  by (simp add: query_expired_executions_def table_scan_expired_def db_request_def)

lemma send_failure_alert_same_ledger: "same_ledger w (send_failure_alert h n errs w)"
proof -
  have "same_ledger w (w\<lparr>ticks := Suc (Suc (ticks w))\<rparr>)" by (simp add: same_ledger_def)
  moreover have "same_ledger (w\<lparr>ticks := Suc (Suc (ticks w))\<rparr>)
     (snd (call (send_error_alert (th_notifier h) n errs (clock w (ticks w)) (clock w (Suc (ticks w))))
             (w\<lparr>ticks := Suc (Suc (ticks w))\<rparr>)))"
    by (rule call_same_ledger)
  ultimately show ?thesis
    by (simp add: send_failure_alert_def utcnow_def same_ledger_def)
qed

lemma carried_set: "list_all2 carried t0 t \<Longrightarrow> y \<in> set t \<Longrightarrow> \<exists>y0\<in>set t0. carried y0 y"
  by (induction rule: list_all2_induct) auto

lemma carried_refl: "list_all2 carried t t"
  by (simp add: list_all2_refl carried_def)

text \<open>
  Claim C4, as amended. Let the audit table hold one item per execution id and answer
  every request without an error, and let the first run of
  \<open>cleanup_expired_executions\<close> find no more expired executions than the batch size.
  When no item that the first run did not find expired counts as expired at the clock
  reading of a second run that follows at once, the second run finds nothing:
  \<open>total_found\<close> and all counters are 0. (Every candidate of the first run was written
  back as rolled back or failed, so the query, which asks for the status executed, no
  longer returns it.)
\<close>

theorem cleanup_twice:
  assumes nf: "\<forall>n. db_faults w n = None"
    and d: "distinct (map ae_execution_id (table w))"
    and fits: "int (length (filter (is_expired_item (clock w (ticks w))) (table w))) \<le> batch_size h"
    and first: "cleanup_expired_executions h w = (r1, w1)"
    and still: "\<forall>x\<in>set (table w). is_expired_item (clock w1 (ticks w1)) x
                   \<longrightarrow> is_expired_item (clock w (ticks w)) x"
  shows "fst (cleanup_expired_executions h w1)
         = \<lparr>total_found = 0, rolled_back = 0, failed = 0, skipped = 0, errors = []\<rparr>"
proof -
  define now1 where "now1 = clock w (ticks w)"
  define expired where "expired = filter (is_expired_item now1) (table w)"
  define wa where "wa = w\<lparr>ticks := Suc (ticks w), db_calls := Suc (db_calls w)\<rparr>"
  have q1: "query_expired_executions now1 (w\<lparr>ticks := Suc (ticks w)\<rparr>) = (Inr expired, wa)"
    using nf query_expired_no_fault [of "w\<lparr>ticks := Suc (ticks w)\<rparr>" now1]
    by (simp add: expired_def wa_def)
  have led: "db_faults w1 = db_faults w \<and> clock w1 = clock w
     \<and> list_all2 carried (table w) (table w1)
     \<and> (\<forall>y\<in>set (table w1). ae_execution_id y \<in> ae_execution_id ` set expired
           \<longrightarrow> ae_status y \<noteq> Executed)"
  proof (cases "expired = []")
    case True
    with first q1 have "w1 = wa"
      by (simp add: cleanup_expired_executions_def utcnow_def now1_def)
    with True show ?thesis by (simp add: wa_def carried_refl)
  next
    case False
    from fits have nb: "\<not> int (length expired) > batch_size h" by (simp add: expired_def now1_def)
    obtain c w3 where l: "cleanup_loop h expired (0, 0, 0, []) wa = (c, w3)"
      by (cases "cleanup_loop h expired (0, 0, 0, []) wa")
    obtain a b cc errs where c: "c = (a, b, cc, errs)" by (cases c) auto
    have w1: "w1 = (if b > 0 then send_failure_alert h b errs w3 else w3)"
      using first q1 False nb l c
      by (simp add: cleanup_expired_executions_def utcnow_def now1_def)
    have nfa: "\<forall>n. db_faults wa n = None" using nf by (simp add: wa_def)
    have sub: "set expired \<subseteq> set (table w)" by (auto simp: expired_def)
    have st: "\<forall>x\<in>set expired. ae_status x = Executed"
      by (auto simp: expired_def is_expired_item_def split: option.splits)
    have inv: "list_all2 carried (table w) (table wa)" by (simp add: wa_def carried_refl)
    have s0: "\<forall>y\<in>set (table wa). ae_execution_id y \<in> {} \<longrightarrow> ae_status y \<noteq> Executed" by simp
    from cleanup_loop_settles [OF nfa d sub st inv s0, of h "(0, 0, 0, [])"] l
    have r: "list_all2 carried (table w) (table w3)"
      "\<forall>y\<in>set (table w3). ae_execution_id y \<in> ae_execution_id ` set expired
          \<longrightarrow> ae_status y \<noteq> Executed"
      "db_faults w3 = db_faults w" "clock w3 = clock w"
      by (simp_all add: wa_def)
    have "same_ledger w3 w1"
      using w1 send_failure_alert_same_ledger [of w3 h b errs] by (simp add: same_ledger_refl)
    with r show ?thesis by (simp add: same_ledger_def)
  qed
  from led have t1: "db_faults w1 = db_faults w" "clock w1 = clock w"
    "list_all2 carried (table w) (table w1)"
    "\<forall>y\<in>set (table w1). ae_execution_id y \<in> ae_execution_id ` set expired
          \<longrightarrow> ae_status y \<noteq> Executed" by simp_all
  define now2 where "now2 = clock w1 (ticks w1)"
  have none: "filter (is_expired_item now2) (table w1) = []"
  proof -
    have "\<not> is_expired_item now2 y" if y: "y \<in> set (table w1)" for y
    proof
      assume e: "is_expired_item now2 y"
      then have ye: "ae_status y = Executed"
        by (auto simp: is_expired_item_def split: option.splits)
      from carried_set [OF t1(3) y] obtain y0 where y0: "y0 \<in> set (table w)" "carried y0 y" by auto
      with ye have "y = y0" by (auto simp: carried_def)
      with y0 e still have "is_expired_item now1 y" by (auto simp: now1_def now2_def)
      with y0 \<open>y = y0\<close> have "y \<in> set expired" by (simp add: expired_def)
      with t1(4) y have "ae_status y \<noteq> Executed" by auto
      with ye show False by simp
    qed
    then show ?thesis by (simp add: filter_empty_conv)
  qed
  have nf1: "db_faults w1 (db_calls w1) = None" "db_faults (w1\<lparr>ticks := Suc (ticks w1)\<rparr>)
      (db_calls (w1\<lparr>ticks := Suc (ticks w1)\<rparr>)) = None" using nf t1(1) by simp_all
  from query_expired_no_fault [OF nf1(2), of now2] none
  show ?thesis
    by (simp add: cleanup_expired_executions_def utcnow_def now2_def)
qed

lemmas ttl_eval = cleanup_expired_executions_def query_expired_executions_def
  table_scan_expired_def db_request_def is_expired_item_def slice_to_def
  ttl_rollback_execution_def rollback_execution_def update_execution_def
  table_put_item_def run_defs cloud_defs three_items_def

text \<open>
  The claim as stated fails when more executions are expired than the batch size admits:
  with a batch size of 1 and two expired executions the first run rolls one back and the
  second run finds and rolls back the other.
\<close>

theorem cleanup_twice_counterexample:
  "length (filter (is_expired_item (clock (cloud_world three_items) 0)) three_items) = 2
   \<and> fst (cleanup_expired_executions (sample_cleanup 1) (cloud_world three_items))
       = \<lparr>total_found = 1, rolled_back = 1, failed = 0, skipped = 0, errors = []\<rparr>
   \<and> fst (cleanup_expired_executions (sample_cleanup 1)
            (snd (cleanup_expired_executions (sample_cleanup 1) (cloud_world three_items))))
       = \<lparr>total_found = 1, rolled_back = 1, failed = 0, skipped = 0, errors = []\<rparr>"
  by (simp add: ttl_eval)

theorem cleanup_twice_witness:
  "(\<forall>n. db_faults (cloud_world three_items) n = None)
   \<and> distinct (map ae_execution_id (table (cloud_world three_items)))
   \<and> int (length (filter (is_expired_item (clock (cloud_world three_items)
                                              (ticks (cloud_world three_items))))
                     (table (cloud_world three_items)))) \<le> batch_size (sample_cleanup 2)
   \<and> fst (cleanup_expired_executions (sample_cleanup 2) (cloud_world three_items))
       = \<lparr>total_found = 2, rolled_back = 2, failed = 0, skipped = 0, errors = []\<rparr>
   \<and> fst (cleanup_expired_executions (sample_cleanup 2)
            (snd (cleanup_expired_executions (sample_cleanup 2) (cloud_world three_items))))
       = \<lparr>total_found = 0, rolled_back = 0, failed = 0, skipped = 0, errors = []\<rparr>"
proof -
  have h1: "\<forall>n. db_faults (cloud_world three_items) n = None" by (simp add: cloud_world_def)
  have h2: "distinct (map ae_execution_id (table (cloud_world three_items)))"
    by (simp add: cloud_defs three_items_def)
  have h3: "int (length (filter (is_expired_item (clock (cloud_world three_items)
                                              (ticks (cloud_world three_items))))
                     (table (cloud_world three_items)))) \<le> batch_size (sample_cleanup 2)"
    by (simp add: cloud_defs three_items_def is_expired_item_def)
  have h4: "cleanup_expired_executions (sample_cleanup 2) (cloud_world three_items)
      = (fst (cleanup_expired_executions (sample_cleanup 2) (cloud_world three_items)),
         snd (cleanup_expired_executions (sample_cleanup 2) (cloud_world three_items)))"
    by simp
  have t: "ticks (snd (cleanup_expired_executions (sample_cleanup 2) (cloud_world three_items))) = 5"
    by (simp add: ttl_eval)
  have h5: "\<forall>x\<in>set (table (cloud_world three_items)).
      is_expired_item (clock (snd (cleanup_expired_executions (sample_cleanup 2)
                                      (cloud_world three_items)))
                         (ticks (snd (cleanup_expired_executions (sample_cleanup 2)
                                        (cloud_world three_items))))) x
      \<longrightarrow> is_expired_item (clock (cloud_world three_items) (ticks (cloud_world three_items))) x"
    unfolding t by (simp add: ttl_eval)
  have r1: "fst (cleanup_expired_executions (sample_cleanup 2) (cloud_world three_items))
       = \<lparr>total_found = 2, rolled_back = 2, failed = 0, skipped = 0, errors = []\<rparr>"
    by (simp add: ttl_eval)
  from cleanup_twice [OF h1 h2 h3 h4 h5] h1 h2 h3 r1 show ?thesis by simp
qed

section \<open>Approval: a generated signature verifies\<close>

lemma hexdigit_ascii: "n < 16 \<Longrightarrow> (of_char (hexdigit n) :: nat) < 128"
proof -
  assume "n < 16"
  then have "hexdigit n \<in> set ''0123456789abcdef''"
    unfolding hexdigit_def by (intro nth_mem) simp
  then show ?thesis by auto
qed

lemma be_bytes_lt: "b \<in> set (be_bytes k n) \<Longrightarrow> b < 256"
  by (induction k arbitrary: n) auto

lemma sha256_bytes: "b \<in> set (sha256 m) \<Longrightarrow> b < 256"
  by (auto simp: sha256_def dest: be_bytes_lt)

lemma hexdigest_ascii:
  "\<forall>b\<in>set bs. b < 256 \<Longrightarrow> list_all (\<lambda>c. (of_char c :: nat) < 128) (hexdigest bs)"
proof (induction bs)
  case Nil
  show ?case by (simp add: hexdigest_def)
next
  case (Cons b bs)
  then have "b < 256" by simp
  then have "b div 16 < 16" "b mod 16 < 16" by simp_all
  then have "(of_char (hexdigit (b div 16)) :: nat) < 128" "(of_char (hexdigit (b mod 16)) :: nat) < 128"
    by (simp_all add: hexdigit_ascii)
  with Cons show ?case by (simp add: hexdigest_def)
qed

lemma generate_signature_ascii:
  "list_all (\<lambda>c. (of_char c :: nat) < 128) (generate_signature h execution_id timestamp)"
  unfolding generate_signature_def hmac_sha256_def
  by (rule hexdigest_ascii) (simp add: sha256_bytes)

lemma verify_generated_signature:
  "verify_signature h execution_id timestamp (generate_signature h execution_id timestamp) = Inr True"
  using generate_signature_ascii [of h execution_id timestamp]
  by (simp add: verify_signature_def compare_digest_def)

section \<open>Approval: the freshness window\<close>

text \<open>
  Claim C2, as the code has it. For a timestamp that parses to a naive datetime \<open>t\<close>,
  \<open>is_expired\<close> answers whether the clock reading minus \<open>t\<close> is strictly greater than
  the timeout; so a timestamp whose age equals the timeout exactly is not expired, against
  the claim. A timestamp that the parser turns down with \<^verbatim>\<open>ValueError\<close> is expired,
  as the claim says.
\<close>

theorem is_expired_boundary:
  "(fromisoformat h (replace_Z timestamp) = Inr (Naive t)
      \<longrightarrow> fst (is_expired h timestamp w)
            = Inr (clock w (ticks w) - t > approval_timeout_hours h * 3600000000))
   \<and> (fromisoformat h (replace_Z timestamp) = Inr (Naive t)
        \<and> clock w (ticks w) - t = approval_timeout_hours h * 3600000000
      \<longrightarrow> fst (is_expired h timestamp w) = Inr False)
   \<and> (fromisoformat h (replace_Z timestamp) = Inl (ValueError m)
      \<longrightarrow> is_expired h timestamp w = (Inr True, w))"
  by (simp add: is_expired_def utcnow_def)

theorem is_expired_boundary_witness:
  "fromisoformat sample_handler (replace_Z ''2025-01-15T09:30:00'') = Inr (Naive 1736933400000000)
   \<and> clock (cloud_world []) (ticks (cloud_world [])) - 1736933400000000
       = approval_timeout_hours sample_handler * 3600000000
   \<and> fst (is_expired sample_handler ''2025-01-15T09:30:00'' (cloud_world [])) = Inr False
   \<and> fromisoformat sample_handler (replace_Z ''invalid-timestamp'')
       = Inl (ValueError ''Invalid isoformat string: invalid-timestamp'')
   \<and> is_expired sample_handler ''invalid-timestamp'' (cloud_world []) = (Inr True, cloud_world [])
   \<and> fst (handle_approval sample_handler ''exec-1''
            (generate_signature sample_handler ''exec-1'' ''2025-01-15T09:30:00'')
            ''2025-01-15T09:30:00'' ''alice'' (cloud_world []))
       = Inr \<lparr>statusCode = 404, body = ''Execution not found''\<rparr>"
proof -
  have h1: "fromisoformat sample_handler (replace_Z ''2025-01-15T09:30:00'')
      = Inr (Naive 1736933400000000)
    \<and> clock (cloud_world []) (ticks (cloud_world [])) - 1736933400000000
       = approval_timeout_hours sample_handler * 3600000000"
    by (simp add: replace_Z_def cloud_defs)
  have h2: "fromisoformat sample_handler (replace_Z ''invalid-timestamp'')
       = Inl (ValueError ''Invalid isoformat string: invalid-timestamp'')"
    by (simp add: replace_Z_def cloud_defs)
  note t = is_expired_boundary [of sample_handler "''2025-01-15T09:30:00''" 1736933400000000
      "cloud_world []"]
    is_expired_boundary [of sample_handler "''invalid-timestamp''" 0 "cloud_world []"
      "''Invalid isoformat string: invalid-timestamp''"]
  from t(1) h1 have e1: "fst (is_expired sample_handler ''2025-01-15T09:30:00'' (cloud_world []))
      = Inr False" by simp
  from t(2) h2 have e2: "is_expired sample_handler ''invalid-timestamp'' (cloud_world [])
      = (Inr True, cloud_world [])" by simp
  obtain w1 where w1: "is_expired sample_handler ''2025-01-15T09:30:00'' (cloud_world [])
      = (Inr False, w1)" "table w1 = []" "db_faults w1 (db_calls w1) = None"
    using e1 by (cases "is_expired sample_handler ''2025-01-15T09:30:00'' (cloud_world [])")
      (auto simp: is_expired_def utcnow_def replace_Z_def cloud_defs split: if_splits)
  have g: "fst (get_execution ''exec-1'' w1) = Inr None"
    using w1(2,3) by (simp add: get_execution_def table_get_item_def db_request_def)
  have e3: "fst (handle_approval sample_handler ''exec-1''
            (generate_signature sample_handler ''exec-1'' ''2025-01-15T09:30:00'')
            ''2025-01-15T09:30:00'' ''alice'' (cloud_world []))
       = Inr \<lparr>statusCode = 404, body = ''Execution not found''\<rparr>"
    using w1(1) g
    by (cases "get_execution ''exec-1'' w1")
       (simp add: handle_approval_def verify_generated_signature)
  from h1 h2 e1 e2 e3 show ?thesis by simp
qed

section \<open>Approval: the executed record\<close>

lemma preserves_find_existing_policy: "preserves (find_existing_policy client name)"
proof -
  have inner: "preserves (and_then (call (sts_get_caller_identity client))
             (\<lambda>account_id.
                and_then (call (iam_get_policy client
                                  (''arn:aws:iam::'' @ account_id @ '':policy/'' @ name)))
                  (\<lambda>_. pure_result
                         (Inr (Some (''arn:aws:iam::'' @ account_id @ '':policy/'' @ name))))))"
    by (intro preserves_and_then preserves_pure preserves_call)
  have "snd (find_existing_policy client name w)
      = snd (and_then (call (sts_get_caller_identity client))
             (\<lambda>account_id.
                and_then (call (iam_get_policy client
                                  (''arn:aws:iam::'' @ account_id @ '':policy/'' @ name)))
                  (\<lambda>_. pure_result
                         (Inr (Some (''arn:aws:iam::'' @ account_id @ '':policy/'' @ name))))) w)"
    for w
    by (simp add: find_existing_policy_def split: prod.splits sum.splits exn.splits)
  with inner show ?thesis by (simp add: preserves_def)
qed

lemma preserves_list_attached_policies: "preserves (list_attached_policies client pt pn)"
  by (simp add: list_attached_policies_def preserves_call preserves_pure)

lemma preserves_attach_deny_policy: "preserves (attach_deny_policy client arn deny pid)"
  unfolding attach_deny_policy_def
  by (auto intro!: preserves_and_then preserves_pure preserves_call
        preserves_find_existing_policy preserves_list_attached_policies
        split: option.splits)

lemma execute_single_action_frame:
  "same_ledger w (snd (execute_single_action ex a t pid eid by ttl w))"
proof -
  have u: "same_ledger w (snd (uuid4 w))" by (simp add: uuid4_def same_ledger_def)
  from preserves_attach_deny_policy [of "iam ex" t "some_list (pa_deny a)" pid]
  have "same_ledger (snd (uuid4 w))
          (snd (attach_deny_policy (iam ex) t (some_list (pa_deny a)) pid (snd (uuid4 w))))"
    by (simp add: preserves_def)
  with u show ?thesis
    by (cases "pa_type a")
       (auto simp: execute_single_action_def Let_def utcnow_def uuid4_def same_ledger_def
          split: prod.splits sum.splits)
qed

lemma execute_single_action_no_ttl:
  "execute_single_action ex a t pid eid by (Some 0) w = (Inr x, w') \<Longrightarrow> ae_ttl_expires_at x = None"
  by (cases "pa_type a")
     (auto simp: execute_single_action_def Let_def utcnow_def uuid4_def
        split: prod.splits sum.splits if_splits)

lemma execute_for_targets_no_ttl:
  "execute_for_targets ex a targets pid eid by (Some 0) w = (Inr xs, w')
   \<Longrightarrow> list_all (\<lambda>x. ae_ttl_expires_at x = None) xs \<and> same_ledger w w'"
proof (induction targets arbitrary: w xs)
  case Nil
  then show ?case by (auto simp: same_ledger_refl)
next
  case (Cons t targets)
  obtain r w1 where s: "execute_single_action ex a t pid eid by (Some 0) w = (r, w1)"
    by (cases "execute_single_action ex a t pid eid by (Some 0) w")
  from execute_single_action_frame [of w ex a t pid eid "by" "Some 0"] s
  have f1: "same_ledger w w1" by simp
  from Cons.prems s obtain x where x: "r = Inr x" by (cases r) auto
  from s x have nx: "ae_ttl_expires_at x = None" by (auto dest: execute_single_action_no_ttl)
  obtain r2 w2 where l: "execute_for_targets ex a targets pid eid by (Some 0) w1 = (r2, w2)"
    by (cases "execute_for_targets ex a targets pid eid by (Some 0) w1")
  from Cons.prems s x l obtain ys where ys: "r2 = Inr ys" "xs = x # ys" "w' = w2"
    by (cases r2) auto
  from Cons.IH [of w1 ys] l ys have "list_all (\<lambda>x. ae_ttl_expires_at x = None) ys"
    "same_ledger w1 w2" by simp_all
  with nx ys f1 show ?case by (auto intro: same_ledger_trans)
qed

lemma execute_for_actions_no_ttl:
  "execute_for_actions ex actions targets pid eid by (Some 0) w = (Inr xs, w')
   \<Longrightarrow> list_all (\<lambda>x. ae_ttl_expires_at x = None) xs \<and> same_ledger w w'"
proof (induction actions arbitrary: w xs)
  case Nil
  then show ?case by (auto simp: same_ledger_refl)
next
  case (Cons a actions)
  obtain r w1 where s: "execute_for_targets ex a targets pid eid by (Some 0) w = (r, w1)"
    by (cases "execute_for_targets ex a targets pid eid by (Some 0) w")
  from Cons.prems s obtain ys where r: "r = Inr ys" by (cases r) auto
  from execute_for_targets_no_ttl s r
  have 1: "list_all (\<lambda>x. ae_ttl_expires_at x = None) ys" "same_ledger w w1" by blast+
  obtain r2 w2 where l: "execute_for_actions ex actions targets pid eid by (Some 0) w1 = (r2, w2)"
    by (cases "execute_for_actions ex actions targets pid eid by (Some 0) w1")
  from Cons.prems s r l obtain zs where zs: "r2 = Inr zs" "xs = ys @ zs" "w' = w2"
    by (cases r2) auto
  from Cons.IH [of w1 zs] l zs have "list_all (\<lambda>x. ae_ttl_expires_at x = None) zs"
    "same_ledger w1 w2" by simp_all
  with 1 zs show ?case by (auto intro: same_ledger_trans)
qed

lemma execute_action_plan_no_ttl:
  assumes "ap_ttl_minutes plan = Some 0"
    and "execute_action_plan ex plan eid by w = (Inr xs, w')"
  shows "list_all (\<lambda>x. ae_ttl_expires_at x = None) xs \<and> same_ledger w w'"
  using assms execute_for_actions_no_ttl [of ex "ap_actions plan" "ap_target_principals plan"
      "the (ap_matched_policy_id plan)" eid "by" w xs w']
  by (simp add: execute_action_plan_def split: if_splits)

lemma rebuild_plan_ttl: "rebuild_plan execution deny = Inr plan \<Longrightarrow> ap_ttl_minutes plan = Some 0"
  by (auto simp: rebuild_plan_def new_ActionPlan_def split: sum.splits if_splits)

lemma find_put_item_in:
  "find (\<lambda>y. ae_execution_id y = ae_execution_id x) (put_item_in x t) = Some x"
  by (induction t) auto

lemma execute_approved_200:
  assumes nf: "\<forall>n. db_faults w n = None"
    and run: "execute_approved h execution execution_id user w = (Inr resp, w')"
    and ok: "statusCode resp = 200"
  shows "\<exists>x. find (\<lambda>y. ae_execution_id y = execution_id) (table w') = Some x
            \<and> ae_ttl_expires_at x = None"
proof -
  from run ok obtain deny where deny: "stored_deny_actions (ae_diff execution) = Inr deny"
    by (cases "stored_deny_actions (ae_diff execution)")
       (auto simp: execute_approved_def and_then_def pure_result_def)
  from run ok deny have nz: "\<not> (ae_action execution = ''attach_deny_policy'' \<and> \<not> truthy deny)"
    by (auto simp: execute_approved_def and_then_def pure_result_def split: if_splits)
  from run ok deny nz obtain plan where plan: "rebuild_plan execution deny = Inr plan"
    by (cases "rebuild_plan execution deny")
       (auto simp: execute_approved_def and_then_def pure_result_def)
  obtain r w1 where ex: "execute_action_plan (aw_executor h) plan (ae_event_id execution)
      (''user:'' @ user) w = (r, w1)"
    by (cases "execute_action_plan (aw_executor h) plan (ae_event_id execution) (''user:'' @ user) w")
  from run ok deny nz plan ex obtain xs where xs: "r = Inr xs"
    by (cases r) (auto simp: execute_approved_def and_then_def pure_result_def)
  from run ok deny nz plan ex xs obtain x rest where x: "xs = x # rest"
    by (cases xs) (auto simp: execute_approved_def and_then_def pure_result_def)
  from ex xs x have ex': "execute_action_plan (aw_executor h) plan (ae_event_id execution)
      (''user:'' @ user) w = (Inr (x # rest), w1)" by simp
  from execute_action_plan_no_ttl [OF rebuild_plan_ttl [OF plan] ex']
  have nt: "ae_ttl_expires_at x = None" and led: "same_ledger w w1" by simp_all
  from nf led have nf1: "db_faults w1 (db_calls w1) = None" by (simp add: same_ledger_def)
  define x' where "x' = x\<lparr>ae_execution_id := execution_id\<rparr>"
  define w2 where "w2 = w1\<lparr>db_calls := Suc (db_calls w1), table := put_item_in x' (table w1)\<rparr>"
  have "w' = snd (call (send_execution_confirmation (aw_notifier h) x') w2)"
    using run deny nz plan ex xs x update_execution_no_fault [OF nf1, of x']
    by (auto simp: execute_approved_def and_then_def pure_result_def x'_def w2_def)
  with call_same_ledger [of w2 "send_execution_confirmation (aw_notifier h) x'"]
  have "table w' = put_item_in x' (table w1)" by (simp add: same_ledger_def w2_def)
  moreover have "ae_execution_id x' = execution_id" "ae_ttl_expires_at x' = None"
    using nt by (simp_all add: x'_def)
  ultimately show ?thesis using find_put_item_in [of x' "table w1"] by auto
qed

text \<open>
  Claim C1, as the code has it. \<open>handle_approval\<close> rebuilds the plan with
  \<^verbatim>\<open>ttl_minutes=0\<close>, whatever the TTL of the policy was that planned the execution.
  So whenever an approval is answered with status code 200 and the audit table takes the
  update, the record stored under the execution id has no \<open>ttl_expires_at\<close>, against
  the claim. (In the example below the policy has a TTL of 180 minutes; the stored record
  is executed and its diff holds the lists of attached policies before and after, as the
  claim says.)
\<close>

theorem approved_execution_has_no_ttl:
  assumes nf: "\<forall>n. db_faults w n = None"
    and run: "handle_approval h execution_id signature timestamp user w = (Inr resp, w')"
    and ok: "statusCode resp = 200"
  shows "\<exists>x. find (\<lambda>y. ae_execution_id y = execution_id) (table w') = Some x
            \<and> ae_ttl_expires_at x = None"
proof -
  from run ok have v: "verify_signature h execution_id timestamp signature = Inr True"
    by (auto simp: handle_approval_def split: sum.splits bool.splits)
  obtain r1 w1 where e: "is_expired h timestamp w = (r1, w1)" by (cases "is_expired h timestamp w")
  from run ok v e have r1: "r1 = Inr False"
    by (auto simp: handle_approval_def split: sum.splits bool.splits)
  have f1: "db_faults w1 = db_faults w"
    using e by (auto simp: is_expired_def utcnow_def split: sum.splits exn.splits parsed_datetime.splits)
  obtain r2 w2 where g: "get_execution execution_id w1 = (r2, w2)"
    by (cases "get_execution execution_id w1")
  have f2: "db_faults w2 = db_faults w1"
    using g by (auto simp: get_execution_def table_get_item_def db_request_def
        split: option.splits sum.splits exn.splits)
  from run ok v e r1 g obtain execution where r2: "r2 = Inr (Some execution)"
    by (auto simp: handle_approval_def split: sum.splits option.splits)
  from run ok v e r1 g r2 have p: "ae_status execution = Planned"
    by (auto simp: handle_approval_def split: if_splits)
  obtain r3 w3 where a: "execute_approved h execution execution_id user w2 = (r3, w3)"
    by (cases "execute_approved h execution execution_id user w2")
  from run ok v e r1 g r2 p a have r3: "r3 = Inr resp" "w3 = w'"
    by (auto simp: handle_approval_def split: sum.splits prod.splits)
  from nf f1 f2 have nf2: "\<forall>n. db_faults w2 n = None" by simp
  from execute_approved_200 [OF nf2 _ ok, of h execution execution_id user w'] a r3
  show ?thesis by simp
qed

lemmas approval_eval = handle_approval_def verify_generated_signature is_expired_def
  replace_Z_def get_execution_def table_get_item_def db_request_def execute_approved_def
  stored_deny_actions_def get_or_none_def dict_get_def rebuild_plan_def new_PolicyAction_def
  dangerous_actions_def new_ActionPlan_def execute_action_plan_def execute_single_action_def
  attach_deny_policy_def find_existing_policy_def list_attached_policies_def
  parse_principal_arn_def update_execution_def table_put_item_def approved_body_def
  run_defs cloud_defs

theorem approved_execution_has_no_ttl_witness:
  "(\<forall>n. db_faults (cloud_world [planned_item]) n = None)
   \<and> gp_ttl_minutes policy_manual = 180
   \<and> fst (handle_approval sample_handler ''exec-1''
            (generate_signature sample_handler ''exec-1'' ''2025-01-15T10:00:00'')
            ''2025-01-15T10:00:00'' ''alice'' (cloud_world [planned_item]))
       = Inr \<lparr>statusCode = 200,
              body = ''{\"message\": \"Guardrail applied successfully\", \"execution_id\": \"exec-1\", \"status\": \"executed\"}''\<rparr>
   \<and> table (snd (handle_approval sample_handler ''exec-1''
            (generate_signature sample_handler ''exec-1'' ''2025-01-15T10:00:00'')
            ''2025-01-15T10:00:00'' ''alice'' (cloud_world [planned_item])))
       = [approved_item]
   \<and> ae_status approved_item = Executed
   \<and> dict_get (ae_diff approved_item) ''before'' = Some (JList [])
   \<and> ae_ttl_expires_at approved_item = None"
proof -
  have h1: "\<forall>n. db_faults (cloud_world [planned_item]) n = None" by (simp add: cloud_world_def)
  have r: "handle_approval sample_handler ''exec-1''
            (generate_signature sample_handler ''exec-1'' ''2025-01-15T10:00:00'')
            ''2025-01-15T10:00:00'' ''alice'' (cloud_world [planned_item])
       = (Inr \<lparr>statusCode = 200,
              body = ''{\"message\": \"Guardrail applied successfully\", \"execution_id\": \"exec-1\", \"status\": \"executed\"}''\<rparr>,
          snd (handle_approval sample_handler ''exec-1''
            (generate_signature sample_handler ''exec-1'' ''2025-01-15T10:00:00'')
            ''2025-01-15T10:00:00'' ''alice'' (cloud_world [planned_item])))"
    by (simp add: approval_eval json_string_def json_escape_char_def)
  have t: "table (snd (handle_approval sample_handler ''exec-1''
            (generate_signature sample_handler ''exec-1'' ''2025-01-15T10:00:00'')
            ''2025-01-15T10:00:00'' ''alice'' (cloud_world [planned_item])))
       = [approved_item]"
    by (simp add: approval_eval approved_item_def)
  have h3: "statusCode \<lparr>statusCode = 200,
              body = ''{\"message\": \"Guardrail applied successfully\", \"execution_id\": \"exec-1\", \"status\": \"executed\"}''\<rparr> = 200"
    by simp
  have i: "ae_execution_id approved_item = ''exec-1''" by (simp add: approved_item_def)
  from approved_execution_has_no_ttl [OF h1 r h3] t i
  have "ae_ttl_expires_at approved_item = None" by simp
  moreover have "ae_status approved_item = Executed"
    "dict_get (ae_diff approved_item) ''before'' = Some (JList [])"
    "gp_ttl_minutes policy_manual = 180"
    by (simp_all add: approved_item_def dict_get_def policy_manual_def)
  moreover from arg_cong [OF r, of fst]
  have "fst (handle_approval sample_handler ''exec-1''
            (generate_signature sample_handler ''exec-1'' ''2025-01-15T10:00:00'')
            ''2025-01-15T10:00:00'' ''alice'' (cloud_world [planned_item]))
       = Inr \<lparr>statusCode = 200,
              body = ''{\"message\": \"Guardrail applied successfully\", \"execution_id\": \"exec-1\", \"status\": \"executed\"}''\<rparr>"
    by simp
  ultimately show ?thesis using h1 t by simp
qed

section \<open>The name of the deny policy\<close>

lemma json_items_strs: "json_items sort_keys (map JStr xs) = map json_string xs"
  by (induction xs) simp_all

lemma policy_hash_run_first:
  "policy_hash [''ec2:RunInstances'', ''ec2:CreateNatGateway''] = ''8be6209b''"
  by (simp add: policy_hash_def sha_eval)

lemma policy_hash_nat_first:
  "policy_hash [''ec2:CreateNatGateway'', ''ec2:RunInstances''] = ''404d3ac8''"
  by (simp add: policy_hash_def sha_eval)

lemmas attach_eval = attach_deny_policy_def find_existing_policy_def list_attached_policies_def
  parse_principal_arn_def run_defs cloud_defs

text \<open>
  Claim C3, as the code has it. \<^verbatim>\<open>sort_keys=True\<close> orders the keys of dictionaries;
  the JSON text of a list of strings keeps the order of the list. So the name of the deny
  policy depends on the order of the deny actions: the two orders of
  \<^verbatim>\<open>ec2:RunInstances\<close> and \<^verbatim>\<open>ec2:CreateNatGateway\<close> give two names for the same
  policy id, and attaching with the second order after the first creates a second managed
  policy instead of using the first again, against the claim.
\<close>

theorem deny_policy_name_depends_on_order:
  "json_dumps True (JList (map JStr deny_actions))
     = ''['' @ join '', '' (map json_string deny_actions) @ '']''
   \<and> deny_policy_name [''ec2:RunInstances'', ''ec2:CreateNatGateway''] ''ci-ec2-spike''
       = ''guardrails-deny-ci-ec2-spike-8be6209b''
   \<and> deny_policy_name [''ec2:CreateNatGateway'', ''ec2:RunInstances''] ''ci-ec2-spike''
       = ''guardrails-deny-ci-ec2-spike-404d3ac8''
   \<and> sc_policies (ext (snd (attach_deny_policy sample_iam
         ''arn:aws:iam::123456789012:role/ci-deployer''
         [''ec2:CreateNatGateway'', ''ec2:RunInstances''] ''ci-ec2-spike''
         (snd (attach_deny_policy sample_iam ''arn:aws:iam::123456789012:role/ci-deployer''
            [''ec2:RunInstances'', ''ec2:CreateNatGateway''] ''ci-ec2-spike''
            (cloud_world []))))))
       = [''arn:aws:iam::123456789012:policy/guardrails-deny-ci-ec2-spike-8be6209b'',
          ''arn:aws:iam::123456789012:policy/guardrails-deny-ci-ec2-spike-404d3ac8'']"
  by (simp add: json_items_strs attach_eval deny_policy_name_def policy_hash_run_first
      policy_hash_nat_first)

end
